theory Spec2Isabelle
  imports Complex_Main
begin

section \<open>JavaScript strings and numbers\<close>

text \<open>
  A JavaScript string is a sequence of UTF-16 code units and \<^verbatim>\<open>length\<close> counts
  code units, so a string is modelled as the list of its code units. Integers that the
  code counts with (lengths, indices, token estimates) are \<^typ>\<open>nat\<close> or \<^typ>\<open>int\<close>;
  the other numbers (vector entries, prices) are \<^typ>\<open>real\<close>, that is their
  arithmetic is read exactly, without the rounding, the overflow and the underflow of
  IEEE doubles. Where the source floors a quotient of doubles to get an integer
  (\<^verbatim>\<open>chunkCSV\<close>, \<^verbatim>\<open>chunkJSON\<close>) the rounding of the division can decide that integer, so
  the division of the platform is a parameter \<open>fdiv\<close> there, and what is proved holds
  for every division.
\<close>

type_synonym jsstring = "nat list"

definition str :: "string \<Rightarrow> jsstring" where
  "str s = map of_char s"

text \<open>Template literals print a non-negative integer in decimal.\<close>

fun show_nat :: "nat \<Rightarrow> jsstring" where
  "show_nat n = (if n < 10 then [48 + n] else show_nat (n div 10) @ [48 + n mod 10])"

declare show_nat.simps [simp del]

text \<open>
  The code units that \<^verbatim>\<open>String.prototype.trim\<close> strips and that \<^verbatim>\<open>\s\<close> matches:
  the WhiteSpace and LineTerminator productions of ECMAScript.
\<close>

definition isWhiteSpace :: "nat \<Rightarrow> bool" where
  "isWhiteSpace c =
     (c \<in> set [9, 10, 11, 12, 13, 32, 160, 5760, 8232, 8233, 8239, 8287, 12288, 65279]
      \<or> (8192 \<le> c \<and> c \<le> 8202))"

definition trim :: "jsstring \<Rightarrow> jsstring" where
  "trim s = rev (dropWhile isWhiteSpace (rev (dropWhile isWhiteSpace s)))"

text \<open>
  \<^verbatim>\<open>toLowerCase\<close> on the ASCII letters. The full Unicode mapping sends no other code
  unit to one of the letters of \<^verbatim>\<open>csv\<close>, \<^verbatim>\<open>json\<close>, \<^verbatim>\<open>pdf\<close>, \<^verbatim>\<open>txt\<close>, which is all the
  dispatch of \<^verbatim>\<open>chunkContent\<close> compares the result with.
\<close>

definition toLowerCase :: "jsstring \<Rightarrow> jsstring" where
  "toLowerCase s = map (\<lambda>c. if 65 \<le> c \<and> c \<le> 90 then c + 32 else c) s"

text \<open>\<^verbatim>\<open>s.split(d)\<close> for a one-unit separator: never empty, \<^verbatim>\<open>''.split(d)\<close> is \<^verbatim>\<open>['']\<close>.\<close>

fun split_unit :: "nat \<Rightarrow> jsstring \<Rightarrow> jsstring \<Rightarrow> jsstring list" where
  "split_unit d cur [] = [cur]"
| "split_unit d cur (c # cs) =
     (if c = d then cur # split_unit d [] cs else split_unit d (cur @ [c]) cs)"

definition split_lines :: "jsstring \<Rightarrow> jsstring list" where
  "split_lines s = split_unit 10 [] s"

text \<open>\<^verbatim>\<open>xs.join(sep)\<close> on an array of strings.\<close>

fun js_join :: "jsstring \<Rightarrow> jsstring list \<Rightarrow> jsstring" where
  "js_join sep [] = []"
| "js_join sep [x] = x"
| "js_join sep (x # y # ys) = x @ sep @ js_join sep (y # ys)"

text \<open>\<^verbatim>\<open>xs.slice(a, b)\<close> for indices \<open>0 \<le> a \<le> b\<close>.\<close>

definition slice :: "'a list \<Rightarrow> nat \<Rightarrow> nat \<Rightarrow> 'a list" where
  "slice xs a b = take (b - a) (drop a xs)"

text \<open>
  \<^verbatim>\<open>s.slice(start)\<close> for any integer: a negative start counts from the end, and
  \<^verbatim>\<open>s.slice(-0)\<close> is the whole string.
\<close>

definition slice_from :: "jsstring \<Rightarrow> int \<Rightarrow> jsstring" where
  "slice_from s start =
     (let n = int (length s);
          k = (if start < 0 then max (n + start) 0 else min start n)
      in drop (nat k) s)"

text \<open>
  The match of \<^verbatim>\<open>/\n\s*\n/\<close> anchored at the head of the string, if there is one: a
  line feed, then the greedy \<^verbatim>\<open>\s*\<close> backtracks to the last line feed of the white-space
  run that follows. The result is the number of code units of the match after its first
  line feed.
\<close>

definition match_blank :: "jsstring \<Rightarrow> nat option" where
  "match_blank s =
     (case s of
        [] \<Rightarrow> None
      | c # rest \<Rightarrow>
          if c = 10 then
            (let w = takeWhile isWhiteSpace rest;
                 upto_last_lf = dropWhile (\<lambda>x. x \<noteq> 10) (rev w)
             in if upto_last_lf = [] then None else Some (length upto_last_lf))
          else None)"

text \<open>\<^verbatim>\<open>s.split(/\n\s*\n/)\<close>: scan from the left, cut at every match.\<close>

function split_blank :: "jsstring \<Rightarrow> jsstring \<Rightarrow> jsstring list" where
  "split_blank cur s =
     (case s of
        [] \<Rightarrow> [cur]
      | c # cs \<Rightarrow>
          (case match_blank s of
             Some k \<Rightarrow> cur # split_blank [] (drop k cs)
           | None \<Rightarrow> split_blank (cur @ [c]) cs))"
  by pat_completeness auto
termination
  by (relation "measure (\<lambda>(cur, s). length s)") auto

declare split_blank.simps [simp del]

text \<open>\<^verbatim>\<open>s.search(/[.!?]\s/)\<close>: the index of the first match, or \<open>-1\<close>.\<close>

fun search_sentence_end :: "jsstring \<Rightarrow> int" where
  "search_sentence_end (a # b # cs) =
     (if a \<in> set [46, 33, 63] \<and> isWhiteSpace b then 0
      else (let r = search_sentence_end (b # cs) in if r < 0 then - 1 else r + 1))"
| "search_sentence_end [a] = - 1"
| "search_sentence_end [] = - 1"

section \<open>Types of the RAG pipeline (rag.types.ts)\<close>

record chunk_metadata =
  chunk_index :: nat
  source_file :: jsstring
  file_type :: jsstring
  section_label :: "jsstring option"
  page_number :: "nat option"
  line_start :: "nat option"
  line_end :: "nat option"
  tokens :: nat

record ChunkData =
  content :: jsstring
  metadata :: chunk_metadata

record ChunkingConfig =
  chunkSize :: int
  chunkOverlap :: int
  respectSentences :: bool
  respectParagraphs :: bool
  minChunkSize :: int

definition DEFAULT_CHUNKING_CONFIG :: ChunkingConfig where
  "DEFAULT_CHUNKING_CONFIG =
     \<lparr>chunkSize = 1000, chunkOverlap = 200, respectSentences = True,
      respectParagraphs = True, minChunkSize = 100\<rparr>"

section \<open>ChunkingService\<close>

definition estimateTokens :: "jsstring \<Rightarrow> nat" where
  "estimateTokens text = nat \<lceil>real (length text) / 4\<rceil>"

definition countLines :: "jsstring \<Rightarrow> nat" where
  "countLines text = length (split_lines text)"

definition getOverlap :: "jsstring \<Rightarrow> int \<Rightarrow> jsstring" where
  "getOverlap text overlapSize =
     (if overlapSize \<ge> int (length text) then text
      else
        (let lastPart = slice_from text (- overlapSize);
             sentenceEnd = search_sentence_end lastPart
         in if sentenceEnd > 0 then slice_from lastPart (sentenceEnd + 2) else lastPart))"

subsection \<open>chunkCSV\<close>

definition csvChunk :: "jsstring \<Rightarrow> nat \<Rightarrow> nat \<Rightarrow> nat \<Rightarrow> nat \<Rightarrow> jsstring \<Rightarrow> ChunkData" where
  "csvChunk fileName n linesPerChunk i idx chunkContent =
     \<lparr>content = chunkContent,
      metadata =
        \<lparr>chunk_index = idx,
         source_file = fileName,
         file_type = str ''csv'',
         section_label = Some (str ''Lignes '' @ show_nat i @ str ''-''
                         @ show_nat (min (i + linesPerChunk - 1) (n - 1))),
         page_number = None,
         line_start = Some i,
         line_end = Some (min (i + linesPerChunk - 1) (n - 1)),
         tokens = estimateTokens chunkContent\<rparr>\<rparr>"

text \<open>
  The \<^verbatim>\<open>for\<close> loop of \<^verbatim>\<open>chunkCSV\<close>. The source steps by \<^verbatim>\<open>linesPerChunk\<close>, which is at
  least 5; the test \<open>0 < linesPerChunk\<close> only makes the recursion well-founded.
\<close>

function chunkCSV_loop ::
  "jsstring list \<Rightarrow> jsstring \<Rightarrow> jsstring \<Rightarrow> nat \<Rightarrow> nat \<Rightarrow> ChunkData list \<Rightarrow> ChunkData list" where
  "chunkCSV_loop lines headers fileName linesPerChunk i chunks =
     (if i < length lines \<and> 0 < linesPerChunk then
        (let chunkLines = slice lines i (i + linesPerChunk);
             chunkContent = headers @ [10] @ js_join [10] chunkLines
         in chunkCSV_loop lines headers fileName linesPerChunk (i + linesPerChunk)
              (chunks @ [csvChunk fileName (length lines) linesPerChunk i (length chunks) chunkContent]))
      else chunks)"
  by pat_completeness auto
termination
  by (relation "measure (\<lambda>(lines, headers, fileName, linesPerChunk, i, chunks). length lines - i)") auto

declare chunkCSV_loop.simps [simp del]

text \<open>
  \<^verbatim>\<open>chunkCSV\<close>. The two quotients are quotients of doubles: \<open>fdiv\<close> is the division of
  the platform. For the empty text \<^verbatim>\<open>avgLineLength\<close> is 0 and the second quotient is
  infinite or NaN, which no real number stands for; \<^verbatim>\<open>lines\<close> is then \<^verbatim>\<open>['']\<close> and the
  loop body never runs. In every other case the text has at least as many code units as
  line feeds, the average is positive and the second quotient is finite.
\<close>

definition chunkCSV ::
  "(real \<Rightarrow> real \<Rightarrow> real) \<Rightarrow> jsstring \<Rightarrow> jsstring \<Rightarrow> ChunkingConfig \<Rightarrow> ChunkData list" where
  "chunkCSV fdiv csvContent fileName config =
     (let lines = split_lines csvContent in
      case lines of
        [] \<Rightarrow> []
      | headers # _ \<Rightarrow>
          (let avgLineLength = fdiv (real (length csvContent)) (real (length lines));
               linesPerChunk = max \<lfloor>fdiv (real_of_int (chunkSize config)) avgLineLength\<rfloor> 5
           in chunkCSV_loop lines headers fileName (nat linesPerChunk) 1 []))"

subsection \<open>chunkText\<close>

text \<open>The object literal that both \<^verbatim>\<open>chunks.push\<close> calls of \<^verbatim>\<open>chunkText\<close> build.\<close>

definition textChunk :: "jsstring \<Rightarrow> jsstring \<Rightarrow> nat \<Rightarrow> jsstring \<Rightarrow> nat \<Rightarrow> ChunkData" where
  "textChunk text fileName idx currentChunk chunkStart =
     \<lparr>content = trim currentChunk,
      metadata =
        \<lparr>chunk_index = idx,
         source_file = fileName,
         file_type = str ''txt'',
         section_label = Some (str ''Caract'' @ [232] @ str ''res '' @ show_nat chunkStart @ str ''-''
                         @ show_nat (chunkStart + length currentChunk)),
         page_number = None,
         line_start = Some (countLines (take chunkStart text)),
         line_end = Some (countLines (take (chunkStart + length currentChunk) text)),
         tokens = estimateTokens currentChunk\<rparr>\<rparr>"

text \<open>
  One pass of the \<^verbatim>\<open>for (const paragraph of paragraphs)\<close> loop over the state
  \<open>(chunks, currentChunk, chunkStart)\<close>. The overlap is a suffix of the current chunk, so
  the subtraction that advances \<^verbatim>\<open>chunkStart\<close> never goes below zero.
\<close>

definition chunkText_step ::
  "jsstring \<Rightarrow> jsstring \<Rightarrow> ChunkingConfig \<Rightarrow> ChunkData list \<times> jsstring \<times> nat \<Rightarrow> jsstring
   \<Rightarrow> ChunkData list \<times> jsstring \<times> nat" where
  "chunkText_step text fileName config st paragraph =
     (case st of (chunks, currentChunk, chunkStart) \<Rightarrow>
        (let trimmedParagraph = trim paragraph in
         if trimmedParagraph = [] then st
         else
           (let (chunks1, currentChunk1, chunkStart1) =
                  (if int (length currentChunk) + int (length trimmedParagraph) > chunkSize config
                      \<and> length currentChunk > 0
                   then
                     (let chunks' =
                            (if int (length currentChunk) \<ge> minChunkSize config
                             then chunks @ [textChunk text fileName (length chunks) currentChunk chunkStart]
                             else chunks);
                          overlapText = getOverlap currentChunk (chunkOverlap config)
                      in (chunks', overlapText,
                          chunkStart + (length currentChunk - length overlapText)))
                   else (chunks, currentChunk, chunkStart))
            in (chunks1,
                currentChunk1 @ (if currentChunk1 \<noteq> [] then [10, 10] else []) @ trimmedParagraph,
                chunkStart1))))"

definition chunkText :: "jsstring \<Rightarrow> jsstring \<Rightarrow> ChunkingConfig \<Rightarrow> ChunkData list" where
  "chunkText text fileName config =
     (let paragraphs = split_blank [] text;
          (chunks, currentChunk, chunkStart) =
             foldl (chunkText_step text fileName config) ([], [], 0) paragraphs
      in if int (length (trim currentChunk)) \<ge> minChunkSize config
         then chunks @ [textChunk text fileName (length chunks) currentChunk chunkStart]
         else chunks)"

definition chunkPDF :: "jsstring \<Rightarrow> jsstring \<Rightarrow> ChunkingConfig \<Rightarrow> ChunkData list" where
  "chunkPDF pdfContent fileName config = chunkText pdfContent fileName config"

subsection \<open>chunkJSON\<close>

text \<open>
  \<^verbatim>\<open>JSON.parse\<close> and \<^verbatim>\<open>JSON.stringify(_, null, 2)\<close> belong to the platform; the chunker
  takes them as parameters: \<open>parse\<close> gives \<open>None\<close> where \<^verbatim>\<open>JSON.parse\<close> throws. The
  quotients are those of the platform again; for the empty array the first one is
  infinite and the loop body never runs.
\<close>

datatype json =
    JNull
  | JBool bool
  | JNumber real
  | JString jsstring
  | JArray "json list"
  | JObject "(jsstring \<times> json) list"

definition jsonChunk :: "jsstring \<Rightarrow> nat \<Rightarrow> nat \<Rightarrow> nat \<Rightarrow> nat \<Rightarrow> jsstring \<Rightarrow> ChunkData" where
  "jsonChunk fileName n itemsPerChunk i idx chunkContent =
     \<lparr>content = chunkContent,
      metadata =
        \<lparr>chunk_index = idx,
         source_file = fileName,
         file_type = str ''json'',
         section_label = Some (str ''Items '' @ show_nat i @ str ''-''
                         @ show_nat (min (i + itemsPerChunk - 1) (n - 1))),
         page_number = None,
         line_start = None,
         line_end = None,
         tokens = estimateTokens chunkContent\<rparr>\<rparr>"

function chunkJSON_loop ::
  "(json \<Rightarrow> jsstring) \<Rightarrow> json list \<Rightarrow> jsstring \<Rightarrow> nat \<Rightarrow> nat \<Rightarrow> ChunkData list \<Rightarrow> ChunkData list" where
  "chunkJSON_loop stringify data fileName itemsPerChunk i chunks =
     (if i < length data \<and> 0 < itemsPerChunk then
        (let chunkData = slice data i (i + itemsPerChunk);
             chunkContent = stringify (JArray chunkData)
         in chunkJSON_loop stringify data fileName itemsPerChunk (i + itemsPerChunk)
              (chunks @ [jsonChunk fileName (length data) itemsPerChunk i (length chunks) chunkContent]))
      else chunks)"
  by pat_completeness auto
termination
  by (relation "measure (\<lambda>(stringify, data, fileName, itemsPerChunk, i, chunks). length data - i)") auto

declare chunkJSON_loop.simps [simp del]

definition chunkJSON ::
  "(real \<Rightarrow> real \<Rightarrow> real) \<Rightarrow> (jsstring \<Rightarrow> json option) \<Rightarrow> (json \<Rightarrow> jsstring) \<Rightarrow> jsstring
   \<Rightarrow> jsstring \<Rightarrow> ChunkingConfig \<Rightarrow> ChunkData list" where
  "chunkJSON fdiv parse stringify jsonContent fileName config =
     (case parse jsonContent of
        None \<Rightarrow> chunkText jsonContent fileName config
      | Some (JArray data) \<Rightarrow>
          (let itemsPerChunk =
                 max \<lfloor>fdiv (real_of_int (chunkSize config))
                          (fdiv (real (length jsonContent)) (real (length data)))\<rfloor> 1
           in chunkJSON_loop stringify data fileName (nat itemsPerChunk) 0 [])
      | Some data \<Rightarrow> [] @ chunkText (stringify data) fileName config)"

subsection \<open>chunkContent\<close>

definition chunkContent ::
  "(real \<Rightarrow> real \<Rightarrow> real) \<Rightarrow> (jsstring \<Rightarrow> json option) \<Rightarrow> (json \<Rightarrow> jsstring) \<Rightarrow> jsstring
   \<Rightarrow> jsstring \<Rightarrow> jsstring \<Rightarrow> ChunkingConfig \<Rightarrow> ChunkData list" where
  "chunkContent fdiv parse stringify text fileType fileName config =
     (let t = toLowerCase fileType in
      if t = str ''csv'' then chunkCSV fdiv text fileName config
      else if t = str ''json'' then chunkJSON fdiv parse stringify text fileName config
      else if t = str ''pdf'' then chunkPDF text fileName config
      else if t = str ''txt'' then chunkText text fileName config
      else chunkText text fileName config)"

section \<open>Exceptions\<close>

text \<open>
  A thrown value, with the text that a template literal prints for it:
  \<^verbatim>\<open>`${error}`\<close> is \<^verbatim>\<open>Error: <message>\<close> for an \<^verbatim>\<open>Error\<close>.
\<close>

datatype exn = Error jsstring | TypeError jsstring | Thrown jsstring

fun render :: "exn \<Rightarrow> jsstring" where
  "render (Error m) = str ''Error: '' @ m"
| "render (TypeError m) = str ''TypeError: '' @ m"
| "render (Thrown s) = s"

section \<open>FileParserService: parseCSV\<close>

text \<open>
  \<^verbatim>\<open>s.split(sep)\<close> for a separator string: scan from the left, cut at every occurrence.
\<close>

function split_on :: "jsstring \<Rightarrow> jsstring \<Rightarrow> jsstring \<Rightarrow> jsstring list" where
  "split_on sep cur s =
     (case s of
        [] \<Rightarrow> [cur]
      | c # cs \<Rightarrow>
          if sep \<noteq> [] \<and> take (length sep) s = sep
          then cur # split_on sep [] (drop (length sep) s)
          else split_on sep (cur @ [c]) cs)"
  by pat_completeness auto
termination
  by (relation "measure (\<lambda>(sep, cur, s). length s)") auto

declare split_on.simps [simp del]

text \<open>
  The lines of \<^verbatim>\<open>parseCSV\<close>: the source cuts the text of the file at \<^verbatim>\<open>'\\n'\<close>, which is a
  backslash followed by the letter n, and drops the pieces that trim to the empty string.
\<close>

definition parseCSV_lines :: "jsstring \<Rightarrow> jsstring list" where
  "parseCSV_lines text = filter (\<lambda>line. trim line \<noteq> []) (split_on [92, 110] [] text)"

text \<open>
  The candidates of \<^verbatim>\<open>parseCSV\<close> as the source writes them: \<^verbatim>\<open>','\<close>, \<^verbatim>\<open>';'\<close> and
  \<^verbatim>\<open>'\\t'\<close>, which is a backslash followed by the letter t. The loop over them keeps the
  first candidate with the strictly largest number of columns on \<^verbatim>\<open>lines[0]\<close>.
\<close>

definition separators :: "jsstring list" where
  "separators = [str '','', str '';'', [92, 116]]"

definition detectSeparator_step :: "jsstring \<Rightarrow> jsstring \<times> nat \<Rightarrow> jsstring \<Rightarrow> jsstring \<times> nat" where
  "detectSeparator_step line =
     (\<lambda>(bestSeparator, maxColumns) sep.
        (let columns = length (split_on sep [] line)
         in if columns > maxColumns then (sep, columns) else (bestSeparator, maxColumns)))"

definition detectSeparator :: "jsstring \<Rightarrow> jsstring" where
  "detectSeparator line = fst (foldl (detectSeparator_step line) (str '','', 0) separators)"

text \<open>\<^verbatim>\<open>h.trim().replace(/["\\']/g, '')\<close>: trimmed, then the quotes and the backslashes removed.\<close>

definition unquote :: "jsstring \<Rightarrow> jsstring" where
  "unquote s = filter (\<lambda>c. c \<notin> set [34, 92, 39]) (trim s)"

text \<open>
  \<^verbatim>\<open>parseCSV\<close> on the text of the file, up to the header: the value of
  \<^verbatim>\<open>bestSeparator\<close> after the loop over the candidates, and the fields \<^verbatim>\<open>columns\<close> and
  \<^verbatim>\<open>metadata.rows\<close> of the result. The row objects of \<^verbatim>\<open>data\<close> and \<^verbatim>\<open>preview\<close> are not
  modelled.
\<close>

record parsed_csv =
  csv_columns :: "jsstring list"
  csv_rows :: nat

definition parseCSV_bestSeparator :: "jsstring \<Rightarrow> exn + jsstring" where
  "parseCSV_bestSeparator text =
     (case parseCSV_lines text of
        [] \<Rightarrow> Inl (Error (str ''Le fichier CSV est vide''))
      | line0 # _ \<Rightarrow> Inr (detectSeparator line0))"

definition parseCSV :: "jsstring \<Rightarrow> exn + parsed_csv" where
  "parseCSV text =
     (let lines = parseCSV_lines text in
      case lines of
        [] \<Rightarrow> Inl (Error (str ''Le fichier CSV est vide''))
      | line0 # _ \<Rightarrow>
          (let bestSeparator = detectSeparator line0;
               headers = map unquote (split_on bestSeparator [] line0)
           in Inr \<lparr>csv_columns = headers, csv_rows = length lines - 1\<rparr>))"

section \<open>EmbeddingService\<close>

record EmbeddingProvider =
  name :: jsstring
  model :: jsstring
  dimensions :: nat
  maxTokens :: nat
  costPer1KTokens :: real

text \<open>
  The registry \<^verbatim>\<open>EMBEDDING_PROVIDERS\<close>, read at a key: its one entry, or \<open>None\<close> for
  \<^verbatim>\<open>undefined\<close>. The keys that every JavaScript object inherits (\<^verbatim>\<open>constructor\<close>,
  \<^verbatim>\<open>toString\<close>, ...) read as functions in the source and as \<open>None\<close> here; no provider
  is configured under such a key, in the source as in the model.
\<close>

definition EMBEDDING_PROVIDERS :: "jsstring \<Rightarrow> EmbeddingProvider option" where
  "EMBEDDING_PROVIDERS key =
     (if key = str ''gemini-embedding-004''
      then Some \<lparr>name = str ''Google Gemini'', model = str ''text-embedding-004'',
                 dimensions = 768, maxTokens = 2048, costPer1KTokens = 1 / 100000\<rparr>
      else None)"

record IndexingStats =
  total_chunks :: nat
  total_embeddings :: nat
  total_tokens :: nat
  processing_time_ms :: int
  cost_estimate :: real
  errors :: "jsstring list"

record embeddings_result =
  embeddings :: "real list list"
  stats :: IndexingStats

text \<open>
  The embedding provider is outside the program. A request is what \<^verbatim>\<open>fetch\<close> is called
  with; what comes back is one of the cases that \<^verbatim>\<open>generateGeminiBatch\<close> tells apart.
  The environment is a function \<open>fetch\<close> from the ordinal of the call and the request to
  the outcome, so that the same request may succeed once and fail later.
\<close>

record gemini_request =
  url :: jsstring
  body_model :: jsstring
  body_text :: jsstring

datatype http_result =
    Rejected exn
      \<comment> \<open>\<^verbatim>\<open>fetch\<close> rejects: transport error\<close>
  | NotOk nat jsstring
      \<comment> \<open>\<^verbatim>\<open>response.ok\<close> is false: the status and the printed \<^verbatim>\<open>errorData.error?.message || errorData.error\<close>\<close>
  | BadBody exn
      \<comment> \<open>\<^verbatim>\<open>response.json()\<close> rejects, or the body is not an object\<close>
  | NoValues
      \<comment> \<open>\<^verbatim>\<open>data.embedding\<close> or \<^verbatim>\<open>data.embedding.values\<close> is missing\<close>
  | Values "real list"
      \<comment> \<open>\<^verbatim>\<open>data.embedding.values\<close>\<close>

type_synonym fetch_env = "nat \<Rightarrow> gemini_request \<Rightarrow> http_result"

definition gemini_request_for :: "jsstring option \<Rightarrow> EmbeddingProvider \<Rightarrow> jsstring \<Rightarrow> gemini_request" where
  "gemini_request_for geminiApiKey provider text =
     \<lparr>url = str ''https://generativelanguage.googleapis.com/v1beta/models/'' @ model provider
            @ str '':embedContent?key=''
            @ (case geminiApiKey of None \<Rightarrow> str ''null'' | Some k \<Rightarrow> k),
      body_model = str ''models/'' @ model provider,
      body_text = text\<rparr>"

text \<open>What one request of \<^verbatim>\<open>generateGeminiBatch\<close> yields: the vector, or the exception thrown.\<close>

fun embedding_of_response :: "http_result \<Rightarrow> exn + real list" where
  "embedding_of_response (Rejected e) = Inl e"
| "embedding_of_response (NotOk status detail) =
     Inl (Error (str ''API Gemini: '' @ show_nat status @ str '' - '' @ detail))"
| "embedding_of_response (BadBody e) = Inl e"
| "embedding_of_response NoValues =
     Inl (Error (str ''Format de r'' @ [233] @ str ''ponse invalide de l'' @ [39] @ str ''API Gemini''))"
| "embedding_of_response (Values v) = Inr v"

text \<open>\<^verbatim>\<open>!!this.geminiApiKey\<close>\<close>

definition truthy :: "jsstring option \<Rightarrow> bool" where
  "truthy s = (case s of None \<Rightarrow> False | Some k \<Rightarrow> k \<noteq> [])"

definition isProviderConfigured :: "jsstring option \<Rightarrow> jsstring \<Rightarrow> exn + bool" where
  "isProviderConfigured geminiApiKey providerKey =
     (case EMBEDDING_PROVIDERS providerKey of
        None \<Rightarrow> Inl (TypeError (str ''Cannot read properties of undefined (reading '' @ [39]
                                 @ str ''name'' @ [39] @ str '')''))
      | Some provider \<Rightarrow>
          if name provider = str ''Google Gemini'' then Inr (truthy geminiApiKey) else Inr False)"

text \<open>
  \<^verbatim>\<open>generateGeminiBatch\<close>: one request per chunk, in order; the first failure throws and
  the vectors collected so far are lost with the local array. The second component of
  the result is the number of calls made to \<^verbatim>\<open>fetch\<close> so far.
\<close>

fun generateGeminiBatch ::
  "fetch_env \<Rightarrow> jsstring option \<Rightarrow> EmbeddingProvider \<Rightarrow> ChunkData list \<Rightarrow> real list list \<Rightarrow> nat
   \<Rightarrow> (exn + real list list) \<times> nat" where
  "generateGeminiBatch fetch geminiApiKey provider [] vectors calls = (Inr vectors, calls)"
| "generateGeminiBatch fetch geminiApiKey provider (chunk # chunks) vectors calls =
     (case embedding_of_response
             (fetch calls (gemini_request_for geminiApiKey provider (content chunk))) of
        Inl e \<Rightarrow> (Inl e, Suc calls)
      | Inr v \<Rightarrow>
          generateGeminiBatch fetch geminiApiKey provider chunks (vectors @ [v]) (Suc calls))"

definition generateBatch ::
  "fetch_env \<Rightarrow> jsstring option \<Rightarrow> EmbeddingProvider \<Rightarrow> ChunkData list \<Rightarrow> nat
   \<Rightarrow> (exn + real list list) \<times> nat" where
  "generateBatch fetch geminiApiKey provider chunks calls =
     (if name provider = str ''Google Gemini''
      then generateGeminiBatch fetch geminiApiKey provider chunks [] calls
      else (Inl (Error (str ''Provider non support'' @ [233] @ str '': '' @ name provider
                        @ str ''. Seul Gemini est support'' @ [233] @ str ''.'')), calls))"

definition batchSize :: nat where
  "batchSize = 100"

text \<open>
  The \<^verbatim>\<open>for\<close> loop of \<^verbatim>\<open>generateEmbeddings\<close> over the state
  \<open>(vectors, errorList, totalTokens, calls)\<close> (the arrays \<^verbatim>\<open>embeddings\<close> and
  \<^verbatim>\<open>errors\<close> of the source): the \<^verbatim>\<open>try\<close> block on success, the
  \<^verbatim>\<open>catch\<close> block on an exception of \<^verbatim>\<open>generateBatch\<close>.
\<close>

function generateEmbeddings_loop ::
  "fetch_env \<Rightarrow> jsstring option \<Rightarrow> EmbeddingProvider \<Rightarrow> ChunkData list \<Rightarrow> nat
   \<Rightarrow> real list list \<times> jsstring list \<times> nat \<times> nat
   \<Rightarrow> real list list \<times> jsstring list \<times> nat \<times> nat" where
  "generateEmbeddings_loop fetch geminiApiKey provider chunks i st =
     (case st of (vectors, errorList, totalTokens, calls) \<Rightarrow>
        if i < length chunks then
          (let batch = slice chunks i (i + batchSize) in
           case generateBatch fetch geminiApiKey provider batch calls of
             (Inr batchEmbeddings, calls') \<Rightarrow>
               generateEmbeddings_loop fetch geminiApiKey provider chunks (i + batchSize)
                 (vectors @ batchEmbeddings, errorList,
                  totalTokens + foldl (\<lambda>sum chunk. sum + tokens (metadata chunk)) 0 batch,
                  calls')
           | (Inl error, calls') \<Rightarrow>
               (let errorMsg = str ''Erreur batch '' @ show_nat (i div batchSize + 1) @ str '': ''
                               @ render error
                in generateEmbeddings_loop fetch geminiApiKey provider chunks (i + batchSize)
                     (vectors @ replicate (length batch) (replicate (dimensions provider) 0),
                      errorList @ [errorMsg], totalTokens, calls')))
        else st)"
  by pat_completeness auto
termination
  by (relation "measure (\<lambda>(fetch, geminiApiKey, provider, chunks, i, st). length chunks - i)")
     (auto simp: batchSize_def)

declare generateEmbeddings_loop.simps [simp del]

text \<open>
  \<^verbatim>\<open>generateEmbeddings\<close>. The two readings of \<^verbatim>\<open>Date.now()\<close> are the inputs
  \<open>startTime\<close> and \<open>endTime\<close>; the pauses between requests only let time pass.
  For a key outside the registry \<^verbatim>\<open>provider\<close> is undefined and \<^verbatim>\<open>isProviderConfigured\<close>
  throws, so the branch \<open>None\<close> below it is never reached.
\<close>

definition generateEmbeddings ::
  "fetch_env \<Rightarrow> jsstring option \<Rightarrow> int \<Rightarrow> int \<Rightarrow> ChunkData list \<Rightarrow> jsstring \<Rightarrow> nat
   \<Rightarrow> exn + embeddings_result \<times> nat" where
  "generateEmbeddings fetch geminiApiKey startTime endTime chunks providerKey calls =
     (case isProviderConfigured geminiApiKey providerKey of
        Inl e \<Rightarrow> Inl e
      | Inr configured \<Rightarrow>
          (case EMBEDDING_PROVIDERS providerKey of
             None \<Rightarrow> Inl (TypeError [])
           | Some provider \<Rightarrow>
               if \<not> configured
               then Inl (Error (str ''Cl'' @ [233] @ str '' API '' @ name provider @ str '' non configur''
                                @ [233] @ str ''e''))
               else
                 (let (vectors, errorList, totalTokens, calls') =
                        generateEmbeddings_loop fetch geminiApiKey provider chunks 0 ([], [], 0, calls);
                      processingTime = endTime - startTime;
                      costEstimate = (real totalTokens / 1000) * costPer1KTokens provider
                  in Inr (\<lparr>embeddings = vectors,
                           stats = \<lparr>total_chunks = length chunks,
                                    total_embeddings = length vectors,
                                    total_tokens = totalTokens,
                                    processing_time_ms = processingTime,
                                    cost_estimate = costEstimate,
                                    errors = errorList\<rparr>\<rparr>, calls'))))"

text \<open>
  \<^verbatim>\<open>cosineSimilarity\<close>: the body of the loop over the state
  \<open>(dotProduct, normA, normB)\<close>, and the function; the loop runs over the indices of
  \<^verbatim>\<open>vecA\<close>. The sums and the square roots are those of the reals: sums of doubles that
  overflow to infinity or underflow to zero are outside the model.
\<close>

definition cosineSimilarity_step ::
  "real list \<Rightarrow> real list \<Rightarrow> real \<times> real \<times> real \<Rightarrow> nat \<Rightarrow> real \<times> real \<times> real" where
  "cosineSimilarity_step vecA vecB =
     (\<lambda>(dotProduct, normA, normB) i.
        (dotProduct + vecA ! i * vecB ! i,
         normA + vecA ! i * vecA ! i,
         normB + vecB ! i * vecB ! i))"

definition cosineSimilarity :: "real list \<Rightarrow> real list \<Rightarrow> exn + real" where
  "cosineSimilarity vecA vecB =
     (if length vecA \<noteq> length vecB
      then Inl (Error (str ''Les vecteurs doivent avoir la m'' @ [234] @ str ''me dimension''))
      else
        (let (dotProduct, normA, normB) =
               foldl (cosineSimilarity_step vecA vecB) (0, 0, 0) [0..<length vecA];
             normA = sqrt normA;
             normB = sqrt normB
         in if normA = 0 \<or> normB = 0 then Inr 0 else Inr (dotProduct / (normA * normB))))"

text \<open>
  \<^verbatim>\<open>generateSingleEmbedding\<close>, the path of a query: one request, and a failure is thrown
  to the caller.
\<close>

definition generateSingleGeminiEmbedding ::
  "fetch_env \<Rightarrow> jsstring option \<Rightarrow> EmbeddingProvider \<Rightarrow> jsstring \<Rightarrow> nat \<Rightarrow> exn + real list" where
  "generateSingleGeminiEmbedding fetch geminiApiKey provider text calls =
     embedding_of_response (fetch calls (gemini_request_for geminiApiKey provider text))"

definition generateSingleEmbedding ::
  "fetch_env \<Rightarrow> jsstring option \<Rightarrow> jsstring \<Rightarrow> jsstring \<Rightarrow> nat \<Rightarrow> exn + real list" where
  "generateSingleEmbedding fetch geminiApiKey text providerKey calls =
     (case isProviderConfigured geminiApiKey providerKey of
        Inl e \<Rightarrow> Inl e
      | Inr configured \<Rightarrow>
          (case EMBEDDING_PROVIDERS providerKey of
             None \<Rightarrow> Inl (TypeError [])
           | Some provider \<Rightarrow>
               if \<not> configured
               then Inl (Error (str ''Cl'' @ [233] @ str '' API '' @ name provider @ str '' non configur''
                                @ [233] @ str ''e''))
               else if name provider = str ''Google Gemini''
               then generateSingleGeminiEmbedding fetch geminiApiKey provider text calls
               else Inl (Error (str ''Provider non support'' @ [233] @ str '': '' @ name provider
                                @ str ''. Seul Gemini est support'' @ [233] @ str ''.''))))"

section \<open>RAGService\<close>

record RAGConfig =
  embeddingProvider :: jsstring
  chunkingConfig :: ChunkingConfig
  similarityThreshold :: real
  maxMatches :: int
  includeMetadata :: bool

definition DEFAULT_RAG_CONFIG :: RAGConfig where
  "DEFAULT_RAG_CONFIG =
     \<lparr>embeddingProvider = str ''gemini-embedding-004'',
      chunkingConfig = DEFAULT_CHUNKING_CONFIG,
      similarityThreshold = 7 / 10,
      maxMatches = 5,
      includeMetadata = True\<rparr>"

subsection \<open>indexDataset\<close>

text \<open>
  The object that \<^verbatim>\<open>indexDataset\<close> inserts for a chunk (the fields \<^verbatim>\<open>content\<close> and
  \<^verbatim>\<open>metadata\<close> carry a prefix here, the names being taken by the chunk's).
\<close>

record embedding_row =
  gem_id :: jsstring
  dataset_id :: jsstring
  row_content :: jsstring
  row_metadata :: chunk_metadata
  embedding :: "real list"

text \<open>
  The store is outside the program. Its state is the table of embeddings; the environment
  \<open>insert_error\<close> says, for the ordinal of an insert request and its rows, whether the
  store answers with an error (and its message) or accepts. An accepted request adds its
  rows to the table, a refused one adds none.
\<close>

record world =
  fetch_calls :: nat
  insert_calls :: nat
  embeddings_table :: "embedding_row list"

type_synonym insert_env = "nat \<Rightarrow> embedding_row list \<Rightarrow> jsstring option"

definition insertBatchSize :: nat where
  "insertBatchSize = 50"

definition embeddingRecords ::
  "jsstring \<Rightarrow> jsstring \<Rightarrow> ChunkData list \<Rightarrow> real list list \<Rightarrow> embedding_row list" where
  "embeddingRecords gemId datasetId chunks vectors =
     map (\<lambda>(index, chunk).
            \<lparr>gem_id = gemId, dataset_id = datasetId, row_content = content chunk,
             row_metadata = metadata chunk, embedding = vectors ! index\<rparr>)
         (enumerate 0 chunks)"

text \<open>The insertion loop over the state \<open>(insertedCount, errorList, w)\<close>.\<close>

function indexDataset_loop ::
  "insert_env \<Rightarrow> embedding_row list \<Rightarrow> nat \<Rightarrow> nat \<times> jsstring list \<times> world
   \<Rightarrow> nat \<times> jsstring list \<times> world" where
  "indexDataset_loop insert_error records i st =
     (case st of (insertedCount, errorList, w) \<Rightarrow>
        if i < length records then
          (let batch = slice records i (i + insertBatchSize) in
           case insert_error (insert_calls w) batch of
             Some message \<Rightarrow>
               indexDataset_loop insert_error records (i + insertBatchSize)
                 (insertedCount,
                  errorList @ [str ''Erreur insertion batch '' @ show_nat (i div insertBatchSize + 1)
                               @ str '': '' @ message],
                  w\<lparr>insert_calls := Suc (insert_calls w)\<rparr>)
           | None \<Rightarrow>
               indexDataset_loop insert_error records (i + insertBatchSize)
                 (insertedCount + length batch, errorList,
                  w\<lparr>insert_calls := Suc (insert_calls w),
                    embeddings_table := embeddings_table w @ batch\<rparr>))
        else st)"
  by pat_completeness auto
termination
  by (relation "measure (\<lambda>(insert_error, records, i, st). length records - i)")
     (auto simp: insertBatchSize_def)

declare indexDataset_loop.simps [simp del]

definition indexDataset ::
  "(real \<Rightarrow> real \<Rightarrow> real) \<Rightarrow> (jsstring \<Rightarrow> json option) \<Rightarrow> (json \<Rightarrow> jsstring) \<Rightarrow> fetch_env
   \<Rightarrow> insert_env \<Rightarrow> jsstring option \<Rightarrow> int \<Rightarrow> int \<Rightarrow> jsstring \<Rightarrow> jsstring \<Rightarrow> jsstring \<Rightarrow> jsstring
   \<Rightarrow> jsstring \<Rightarrow> RAGConfig \<Rightarrow> world \<Rightarrow> exn + IndexingStats \<times> world" where
  "indexDataset fdiv parse stringify fetch insert_error geminiApiKey startTime endTime
     gemId datasetId text fileName fileType config w =
     (let chunks = chunkContent fdiv parse stringify text fileType fileName (chunkingConfig config) in
      if length chunks = 0
      then Inl (Error (str ''Aucun chunk g'' @ [233] @ str ''n'' @ [233] @ str ''r'' @ [233] @ str '' ''
                       @ [224] @ str '' partir du contenu''))
      else
        (case generateEmbeddings fetch geminiApiKey startTime endTime chunks
                (embeddingProvider config) (fetch_calls w) of
           Inl e \<Rightarrow> Inl e
         | Inr (result, calls') \<Rightarrow>
             if length (embeddings result) \<noteq> length chunks
             then Inl (Error (str ''Nombre d'' @ [39] @ str ''embeddings (''
                              @ show_nat (length (embeddings result)) @ str '') != nombre de chunks (''
                              @ show_nat (length chunks) @ str '')''))
             else
               (let records = embeddingRecords gemId datasetId chunks (embeddings result);
                    (insertedCount, errorList, w') =
                       indexDataset_loop insert_error records 0
                         (0, errors (stats result), w\<lparr>fetch_calls := calls'\<rparr>)
                in Inr ((stats result)\<lparr>errors := errorList, total_embeddings := insertedCount\<rparr>,
                        w'))))"

subsection \<open>searchSimilar and searchForAI\<close>

text \<open>
  The metadata of a stored row, as the interface \<^verbatim>\<open>Embedding\<close> declares it: every field
  optional. A match may carry no metadata at all.
\<close>

record stored_metadata =
  md_chunk_index :: "nat option"
  md_source_file :: "jsstring option"
  md_file_type :: "jsstring option"
  md_section :: "jsstring option"
  md_page_number :: "nat option"
  md_line_start :: "nat option"
  md_line_end :: "nat option"
  md_tokens :: "nat option"

record SimilarityMatch =
  match_id :: jsstring
  match_content :: jsstring
  match_metadata :: "stored_metadata option"
  similarity :: real

record RAGSearchResult =
  matches :: "SimilarityMatch list"
  query :: jsstring
  threshold :: real
  total_matches :: nat

record RAGSearchStats =
  query_time_ms :: int
  total_embeddings_searched :: nat
  matches_found :: nat
  similarity_scores :: "real list"

record ai_search =
  context_text :: jsstring
  sources :: "jsstring list"
  searchResult :: RAGSearchResult
  searchStats :: RAGSearchStats

text \<open>
  The remote procedure \<^verbatim>\<open>match_embeddings\<close>: an error message, or the rows
  (\<open>None\<close> for a null \<^verbatim>\<open>data\<close>).
\<close>

type_synonym match_env = "real list \<Rightarrow> jsstring \<Rightarrow> real \<Rightarrow> int \<Rightarrow> jsstring + SimilarityMatch list option"

definition searchSimilar ::
  "fetch_env \<Rightarrow> match_env \<Rightarrow> jsstring option \<Rightarrow> jsstring \<Rightarrow> jsstring \<Rightarrow> RAGConfig \<Rightarrow> nat
   \<Rightarrow> exn + RAGSearchResult" where
  "searchSimilar fetch match_embeddings geminiApiKey gemId queryText config calls =
     (case generateSingleEmbedding fetch geminiApiKey queryText (embeddingProvider config) calls of
        Inl e \<Rightarrow> Inl e
      | Inr queryEmbedding \<Rightarrow>
          (case match_embeddings queryEmbedding gemId (similarityThreshold config) (maxMatches config) of
             Inl message \<Rightarrow> Inl (Error (str ''Erreur recherche: '' @ message))
           | Inr data \<Rightarrow>
               (let similarityMatches =
                      map (\<lambda>m. \<lparr>match_id = match_id m, match_content = match_content m,
                                 match_metadata = match_metadata m, similarity = similarity m\<rparr>)
                          (case data of None \<Rightarrow> [] | Some rows \<Rightarrow> rows)
                in Inr \<lparr>matches = similarityMatches, query = queryText,
                        threshold = similarityThreshold config,
                        total_matches = length similarityMatches\<rparr>)))"

text \<open>
  \<^verbatim>\<open>match.metadata?.source_file || 'Fichier inconnu'\<close> and
  \<^verbatim>\<open>match.metadata?.section || ''\<close>: a missing or empty string gives the default.
\<close>

definition sourceFile_of :: "SimilarityMatch \<Rightarrow> jsstring" where
  "sourceFile_of m =
     (case match_metadata m of
        None \<Rightarrow> str ''Fichier inconnu''
      | Some md \<Rightarrow>
          (case md_source_file md of
             None \<Rightarrow> str ''Fichier inconnu''
           | Some f \<Rightarrow> if f = [] then str ''Fichier inconnu'' else f))"

definition section_of :: "SimilarityMatch \<Rightarrow> jsstring" where
  "section_of m =
     (case match_metadata m of
        None \<Rightarrow> []
      | Some md \<Rightarrow> (case md_section md of None \<Rightarrow> [] | Some sec \<Rightarrow> sec))"

definition searchForAI ::
  "fetch_env \<Rightarrow> match_env \<Rightarrow> jsstring option \<Rightarrow> int \<Rightarrow> int \<Rightarrow> jsstring \<Rightarrow> jsstring \<Rightarrow> RAGConfig
   \<Rightarrow> nat \<Rightarrow> exn + ai_search" where
  "searchForAI fetch match_embeddings geminiApiKey startTime endTime gemId queryText config calls =
     (case searchSimilar fetch match_embeddings geminiApiKey gemId queryText config calls of
        Inl e \<Rightarrow> Inl e
      | Inr result \<Rightarrow>
          (let contextText =
                 js_join [10, 10]
                   (map (\<lambda>(index, m). str ''[Source '' @ show_nat (index + 1) @ str ''] ''
                                        @ match_content m)
                        (enumerate 0 (matches result)));
               sourceList =
                 map (\<lambda>(index, m).
                        (let sourceFile = sourceFile_of m; sec = section_of m
                         in str ''Source '' @ show_nat (index + 1) @ str '': '' @ sourceFile
                            @ (if sec \<noteq> [] then str '' ('' @ sec @ str '')'' else [])))
                     (enumerate 0 (matches result));
               searchTime = endTime - startTime
           in Inr \<lparr>context_text = contextText,
                   sources = sourceList,
                   searchResult = result,
                   searchStats =
                     \<lparr>query_time_ms = searchTime,
                      total_embeddings_searched = total_matches result,
                      matches_found = length (matches result),
                      similarity_scores = map similarity (matches result)\<rparr>\<rparr>))"

section \<open>The requests of a run of generateEmbeddings\<close>

text \<open>
  A second description of a run, written from the side of the provider: which requests
  reach it, in which order, and what its answers make of every batch. It is defined from
  \<open>fetch\<close> alone and mentions neither \<^verbatim>\<open>generateEmbeddings\<close> nor \<^verbatim>\<open>generateBatch\<close> nor
  \<^verbatim>\<open>generateGeminiBatch\<close>; the theorems on the embedding service compare the code with
  it.
\<close>

text \<open>The input cut into batches of 100.\<close>

function batches_of :: "'a list \<Rightarrow> 'a list list" where
  "batches_of xs = (if xs = [] then [] else take batchSize xs # batches_of (drop batchSize xs))"
  by pat_completeness auto
termination
  by (relation "measure length") (auto simp: batchSize_def)

declare batches_of.simps [simp del]

text \<open>
  The answers of the provider to the requests for the chunks of a batch, were they all
  sent, one after the other, the first of them as call number \<open>calls\<close>.
\<close>

fun responses ::
  "fetch_env \<Rightarrow> jsstring option \<Rightarrow> EmbeddingProvider \<Rightarrow> ChunkData list \<Rightarrow> nat \<Rightarrow> http_result list" where
  "responses fetch geminiApiKey provider [] calls = []"
| "responses fetch geminiApiKey provider (chunk # chunks) calls =
     fetch calls (gemini_request_for geminiApiKey provider (content chunk))
     # responses fetch geminiApiKey provider chunks (Suc calls)"

text \<open>
  An answer that carries a vector; the number of such answers before the first that
  carries none; the vectors that a list of answers carries.
\<close>

fun is_vector :: "http_result \<Rightarrow> bool" where
  "is_vector (Values v) = True"
| "is_vector (Rejected e) = False"
| "is_vector (NotOk status detail) = False"
| "is_vector (BadBody e) = False"
| "is_vector NoValues = False"

definition answered :: "http_result list \<Rightarrow> nat" where
  "answered rs = length (takeWhile is_vector rs)"

definition vectors_of :: "http_result list \<Rightarrow> real list list" where
  "vectors_of rs = concat (map (\<lambda>r. case r of Values v \<Rightarrow> [v] | _ \<Rightarrow> []) rs)"

text \<open>
  What happens to a batch whose first request is call number \<open>calls\<close>. When every answer
  carries a vector, all the requests are sent and the outcome is the vectors, in the order
  of the chunks. Otherwise the requests are sent up to the first one whose answer carries
  no vector, the later chunks of the batch are not requested, and the outcome is the
  exception of that answer (there \<open>embedding_of_response\<close> is an exception, the case
  \<open>Inr\<close> of the last line does not occur).
\<close>

record request_run =
  run_batch :: "ChunkData list"
  run_sent :: nat
  run_outcome :: "exn + real list list"

definition request_run ::
  "fetch_env \<Rightarrow> jsstring option \<Rightarrow> EmbeddingProvider \<Rightarrow> ChunkData list \<Rightarrow> nat \<Rightarrow> request_run" where
  "request_run fetch geminiApiKey provider batch calls =
     (let rs = responses fetch geminiApiKey provider batch calls;
          a = answered rs
      in if a = length batch
         then \<lparr>run_batch = batch, run_sent = length batch, run_outcome = Inr (vectors_of rs)\<rparr>
         else \<lparr>run_batch = batch, run_sent = Suc a,
               run_outcome = (case embedding_of_response (rs ! a) of
                                Inl e \<Rightarrow> Inl e
                              | Inr v \<Rightarrow> Inr [])\<rparr>)"

text \<open>The batches one after the other: a batch starts where the requests of the previous one stopped.\<close>

fun request_runs ::
  "fetch_env \<Rightarrow> jsstring option \<Rightarrow> EmbeddingProvider \<Rightarrow> ChunkData list list \<Rightarrow> nat
   \<Rightarrow> request_run list" where
  "request_runs fetch geminiApiKey provider [] calls = []"
| "request_runs fetch geminiApiKey provider (batch # rest) calls =
     request_run fetch geminiApiKey provider batch calls
     # request_runs fetch geminiApiKey provider rest
         (calls + run_sent (request_run fetch geminiApiKey provider batch calls))"

definition embedding_runs ::
  "fetch_env \<Rightarrow> jsstring option \<Rightarrow> EmbeddingProvider \<Rightarrow> ChunkData list \<Rightarrow> nat \<Rightarrow> request_run list" where
  "embedding_runs fetch geminiApiKey provider chunks calls =
     request_runs fetch geminiApiKey provider (batches_of chunks) calls"

text \<open>
  What a batch contributes to the result: its vectors, or as many zero vectors of the
  provider's dimension as it has chunks; its token estimates, or nothing; no error, or one
  error string with the ordinal \<open>k\<close> of the batch.
\<close>

definition batch_vectors :: "EmbeddingProvider \<Rightarrow> request_run \<Rightarrow> real list list" where
  "batch_vectors provider run =
     (case run_outcome run of
        Inl e \<Rightarrow> replicate (length (run_batch run)) (replicate (dimensions provider) 0)
      | Inr vs \<Rightarrow> vs)"

definition batch_tokens :: "request_run \<Rightarrow> nat" where
  "batch_tokens run =
     (case run_outcome run of
        Inl e \<Rightarrow> 0
      | Inr vs \<Rightarrow> sum_list (map (\<lambda>chunk. tokens (metadata chunk)) (run_batch run)))"

definition batch_errors :: "nat \<times> request_run \<Rightarrow> jsstring list" where
  "batch_errors = (\<lambda>(k, run).
     (case run_outcome run of
        Inl e \<Rightarrow> [str ''Erreur batch '' @ show_nat k @ str '': '' @ render e]
      | Inr vs \<Rightarrow> []))"

text \<open>
  What a result holds at position \<open>j\<close>, for requests numbered from \<open>lo\<close> up to, not
  including, \<open>hi\<close>: the vector that one of these requests, sent for chunk \<open>j\<close>, was
  answered with; or the zero vector of the provider's dimension, and then one of these
  requests, sent for a chunk of the batch of \<open>j\<close>, failed, and the error list holds the
  error string of that batch with the exception of that request.
\<close>

definition position_ok ::
  "fetch_env \<Rightarrow> jsstring option \<Rightarrow> EmbeddingProvider \<Rightarrow> ChunkData list \<Rightarrow> nat \<Rightarrow> nat
   \<Rightarrow> real list list \<Rightarrow> jsstring list \<Rightarrow> nat \<Rightarrow> bool" where
  "position_ok fetch geminiApiKey provider chunks lo hi vectors errorList j =
     ((\<exists>k. lo \<le> k \<and> k < hi
           \<and> fetch k (gemini_request_for geminiApiKey provider (content (chunks ! j)))
               = Values (vectors ! j))
      \<or> (vectors ! j = replicate (dimensions provider) 0
         \<and> (\<exists>m k e. m < length chunks \<and> m div batchSize = j div batchSize \<and> lo \<le> k \<and> k < hi
                \<and> embedding_of_response
                      (fetch k (gemini_request_for geminiApiKey provider (content (chunks ! m))))
                    = Inl e
                \<and> str ''Erreur batch '' @ show_nat (j div batchSize + 1) @ str '': '' @ render e
                    \<in> set errorList)))"

section \<open>Chunk sequences\<close>

text \<open>The chunks carry their positions as indices: 0, 1, 2, ...\<close>

definition positioned :: "ChunkData list \<Rightarrow> bool" where
  "positioned cs = (map (\<lambda>c. chunk_index (metadata c)) cs = [0..<length cs])"

section \<open>Example inputs\<close>

text \<open>Chunks as the unit tests of the embedding service build them, and a third one.\<close>

definition mockChunk :: "jsstring \<Rightarrow> nat \<Rightarrow> nat \<Rightarrow> ChunkData" where
  "mockChunk text idx tok =
     \<lparr>content = text,
      metadata = \<lparr>chunk_index = idx, source_file = str ''test.txt'', file_type = str ''txt'',
                  section_label = None, page_number = Some 1, line_start = None, line_end = None,
                  tokens = tok\<rparr>\<rparr>"

definition mockChunks :: "ChunkData list" where
  "mockChunks =
     [mockChunk (str ''Premier chunk de test'') 0 10,
      mockChunk (str ''Deuxi'' @ [232] @ str ''me chunk de test'') 1 12,
      mockChunk (str ''Dernier chunk de test'') 2 7]"

text \<open>A provider that answers every request but the one for the second chunk.\<close>

definition fetch_failing_second :: fetch_env where
  "fetch_failing_second k request =
     (if body_text request = str ''Deuxi'' @ [232] @ str ''me chunk de test''
      then NotOk 400 (str ''Bad Request'')
      else Values (replicate 768 (1 / 2)))"

text \<open>
  A provider that answers every request, with a vector that tells the request: the
  length of its text and the ordinal of the call.
\<close>

definition fetch_echo :: fetch_env where
  "fetch_echo k request = Values [real (length (body_text request)), real k]"

text \<open>
  Two batches: the chunk that \<open>fetch_failing_second\<close> refuses, then 100 times a chunk that
  it answers. The first batch is the refused chunk and 99 others, the second batch is one
  chunk.
\<close>

definition twoBatches :: "ChunkData list" where
  "twoBatches =
     mockChunk (str ''Deuxi'' @ [232] @ str ''me chunk de test'') 0 12
     # replicate 100 (mockChunk (str ''Premier chunk de test'') 1 10)"

text \<open>A provider that is down.\<close>

definition fetch_rejecting :: fetch_env where
  "fetch_rejecting k request = Rejected (Error (str ''Network error''))"

definition testApiKey :: "jsstring option" where
  "testApiKey = Some (str ''AIzaSyTest123'')"

definition geminiProvider :: EmbeddingProvider where
  "geminiProvider =
     \<lparr>name = str ''Google Gemini'', model = str ''text-embedding-004'',
      dimensions = 768, maxTokens = 2048, costPer1KTokens = 1 / 100000\<rparr>"

text \<open>A table of one header and one row, a store that refuses every insert, an empty store.\<close>

definition csvTiny :: jsstring where "csvTiny = str ''h\<newline>a''"

definition insert_refusing :: insert_env where
  "insert_refusing k rows = Some (str ''timeout'')"

definition emptyWorld :: world where
  "emptyWorld = \<lparr>fetch_calls = 0, insert_calls = 0, embeddings_table = []\<rparr>"

text \<open>Two stored rows as \<^verbatim>\<open>match_embeddings\<close> returns them, and the two procedures.\<close>

definition exampleMatches :: "SimilarityMatch list" where
  "exampleMatches =
     [\<lparr>match_id = str ''e1'', match_content = str ''alpha'',
       match_metadata =
         Some \<lparr>md_chunk_index = Some 0, md_source_file = Some (str ''a.csv''),
               md_file_type = Some (str ''csv''), md_section = Some (str ''Lignes 1-5''),
               md_page_number = None, md_line_start = Some 1, md_line_end = Some 5,
               md_tokens = Some 2\<rparr>,
       similarity = 9 / 10\<rparr>,
      \<lparr>match_id = str ''e2'', match_content = str ''beta'', match_metadata = None,
       similarity = 8 / 10\<rparr>]"

definition match_two :: match_env where
  "match_two queryEmbedding gemId matchThreshold matchCount = Inr (Some exampleMatches)"

definition match_nothing :: match_env where
  "match_nothing queryEmbedding gemId matchThreshold matchCount = Inr (Some [])"

text \<open>Small chunking configurations, and two texts of three paragraphs.\<close>

definition smallConfig :: "int \<Rightarrow> int \<Rightarrow> int \<Rightarrow> ChunkingConfig" where
  "smallConfig maxSize overlap minSize =
     \<lparr>chunkSize = maxSize, chunkOverlap = overlap, respectSentences = True,
      respectParagraphs = True, minChunkSize = minSize\<rparr>"

definition threeParagraphs :: jsstring where
  "threeParagraphs = str ''abcd e\<newline>\<newline>f\<newline>\<newline>gh''"

definition threeParagraphs2 :: jsstring where
  "threeParagraphs2 = str ''abcd e\<newline>\<newline>fg\<newline>\<newline>hi''"

text \<open>
  A table separated by tabs, and a table separated by commas with semicolons inside the
  two cells of its row: the header line of each, and the table.
\<close>

definition tabHeader :: jsstring where
  "tabHeader = str ''a'' @ [9] @ str ''b''"

definition tabTable :: jsstring where
  "tabTable = str ''a'' @ [9] @ str ''b'' @ [10] @ str ''1'' @ [9] @ str ''2''"

definition commaHeader :: jsstring where
  "commaHeader = str ''a,b''"

definition commaTable :: jsstring where
  "commaTable = str ''a,b\<newline>1;2;3,4;5''"

section \<open>Properties of the chunker\<close>

subsection \<open>The example runs\<close>

lemma chunkCSV_loop_one_row:
  "5 \<le> n \<Longrightarrow> chunkCSV_loop [h, a] h fileName n 1 []
     = [csvChunk fileName 2 n 1 0 (h @ [10] @ a)]"
  apply (subst chunkCSV_loop.simps)
  apply (subst chunkCSV_loop.simps)
  apply (simp add: slice_def Let_def numeral_2_eq_2)
  done

lemma csvChunk_one_row:
  "5 \<le> n \<Longrightarrow> csvChunk fileName 2 n 1 0 (str ''h\<newline>a'')
     = \<lparr>content = str ''h\<newline>a'',
       metadata = \<lparr>chunk_index = 0, source_file = fileName, file_type = str ''csv'',
                   section_label = Some (str ''Lignes 1-1''), page_number = None,
                   line_start = Some 1, line_end = Some 1, tokens = 1\<rparr>\<rparr>"
  by (simp add: csvChunk_def estimateTokens_def show_nat.simps str_def)

text \<open>Whatever the division: \<^verbatim>\<open>linesPerChunk\<close> is at least 5 and the table has one row.\<close>

lemma chunkCSV_tiny:
  "chunkCSV fdiv csvTiny (str ''f.csv'') DEFAULT_CHUNKING_CONFIG
   = [\<lparr>content = str ''h\<newline>a'',
       metadata = \<lparr>chunk_index = 0, source_file = str ''f.csv'', file_type = str ''csv'',
                   section_label = Some (str ''Lignes 1-1''), page_number = None,
                   line_start = Some 1, line_end = Some 1, tokens = 1\<rparr>\<rparr>]"
proof -
  define n where
    "n = nat (max \<lfloor>fdiv (real_of_int (chunkSize DEFAULT_CHUNKING_CONFIG))
                       (fdiv (real (length csvTiny)) (real (length [str ''h'', str ''a''])))\<rfloor> 5)"
  have n: "5 \<le> n"
    unfolding n_def by simp
  have lines: "split_lines csvTiny = [str ''h'', str ''a'']"
    by (simp add: csvTiny_def split_lines_def str_def)
  have "chunkCSV fdiv csvTiny (str ''f.csv'') DEFAULT_CHUNKING_CONFIG
        = chunkCSV_loop [str ''h'', str ''a''] (str ''h'') (str ''f.csv'') n 1 []"
    unfolding chunkCSV_def lines n_def by (simp add: Let_def)
  also have "\<dots> = [csvChunk (str ''f.csv'') 2 n 1 0 (str ''h'' @ [10] @ str ''a'')]"
    using n by (rule chunkCSV_loop_one_row)
  also have "str ''h'' @ [10] @ str ''a'' = str ''h\<newline>a''"
    by (simp add: str_def)
  finally show ?thesis
    unfolding csvChunk_one_row [OF n] .
qed

lemma chunkContent_tiny:
  "chunkContent fdiv parse stringify csvTiny (str ''csv'') (str ''f.csv'') DEFAULT_CHUNKING_CONFIG
   = [\<lparr>content = str ''h\<newline>a'',
       metadata = \<lparr>chunk_index = 0, source_file = str ''f.csv'', file_type = str ''csv'',
                   section_label = Some (str ''Lignes 1-1''), page_number = None,
                   line_start = Some 1, line_end = Some 1, tokens = 1\<rparr>\<rparr>]"
  using chunkCSV_tiny by (simp add: chunkContent_def toLowerCase_def str_def Let_def)

lemma split_three: "split_blank [] threeParagraphs = [str ''abcd e'', str ''f'', str ''gh'']"
  by (simp add: threeParagraphs_def str_def split_blank.simps match_blank_def isWhiteSpace_def)

lemma split_three2: "split_blank [] threeParagraphs2 = [str ''abcd e'', str ''fg'', str ''hi'']"
  by (simp add: threeParagraphs2_def str_def split_blank.simps match_blank_def isWhiteSpace_def)

lemma chunkText_three:
  "map (\<lambda>c. (chunk_index (metadata c), content c, tokens (metadata c)))
     (chunkText threeParagraphs (str ''f.txt'') (smallConfig 6 2 1))
   = [(0, str ''abcd e'', 2), (1, str ''e\<newline>\<newline>f'', 2), (2, str ''f\<newline>\<newline>gh'', 2)]"
  apply (simp add: chunkText_def split_three)
  apply (simp add: chunkText_step_def smallConfig_def str_def trim_def isWhiteSpace_def
      getOverlap_def slice_from_def textChunk_def estimateTokens_def Let_def)
  done

lemma chunkText_three2:
  "map (\<lambda>c. (chunk_index (metadata c), content c, tokens (metadata c)))
     (chunkText threeParagraphs2 (str ''f.txt'') (smallConfig 7 2 6))
   = [(0, str ''abcd e'', 2), (1, str ''e\<newline>\<newline>fg'', 2), (2, str ''fg\<newline>\<newline>hi'', 2)]"
  apply (simp add: chunkText_def split_three2)
  apply (simp add: chunkText_step_def smallConfig_def str_def trim_def isWhiteSpace_def
      getOverlap_def slice_from_def textChunk_def estimateTokens_def Let_def)
  done

subsection \<open>The floor on the size of a chunk\<close>

text \<open>
  Claim C3 does not hold of the code. The tabular strategy (and the one for JSON arrays)
  never looks at \<^verbatim>\<open>minChunkSize\<close>: a table of one header and one row gives, under the
  default configuration with its floor of 100, a chunk of 3 code units. The free-text
  strategy tests the floor on the untrimmed buffer and emits the trimmed one: with a floor
  of 6 it emits a chunk of 5 code units.
\<close>

theorem chunkContent_below_minChunkSize:
  "map (\<lambda>c. length (content c))
     (chunkContent fdiv parse stringify csvTiny (str ''csv'') (str ''f.csv'') DEFAULT_CHUNKING_CONFIG)
   = [3]
   \<and> minChunkSize DEFAULT_CHUNKING_CONFIG = 100
   \<and> map (\<lambda>c. length (content c))
       (chunkContent fdiv parse stringify threeParagraphs2 (str ''txt'') (str ''f.txt'') (smallConfig 7 2 6))
     = [6, 5, 6]
   \<and> minChunkSize (smallConfig 7 2 6) = 6"
proof -
  have csv: "map (\<lambda>c. length (content c))
     (chunkContent fdiv parse stringify csvTiny (str ''csv'') (str ''f.csv'') DEFAULT_CHUNKING_CONFIG)
   = [3]"
    unfolding chunkContent_tiny by (simp add: str_def)
  have dispatch:
    "chunkContent fdiv parse stringify threeParagraphs2 (str ''txt'') (str ''f.txt'') (smallConfig 7 2 6)
     = chunkText threeParagraphs2 (str ''f.txt'') (smallConfig 7 2 6)"
    by (simp add: chunkContent_def toLowerCase_def str_def)
  have "map (\<lambda>c. length (content c)) (chunkText threeParagraphs2 (str ''f.txt'') (smallConfig 7 2 6))
        = map (\<lambda>t. length (fst (snd t)))
            (map (\<lambda>c. (chunk_index (metadata c), content c, tokens (metadata c)))
               (chunkText threeParagraphs2 (str ''f.txt'') (smallConfig 7 2 6)))"
    by (simp add: o_def)
  also have "\<dots> = [6, 5, 6]"
    unfolding chunkText_three2 by (simp add: str_def)
  finally have free: "map (\<lambda>c. length (content c))
       (chunkContent fdiv parse stringify threeParagraphs2 (str ''txt'') (str ''f.txt'') (smallConfig 7 2 6))
     = [6, 5, 6]"
    unfolding dispatch .
  have "minChunkSize DEFAULT_CHUNKING_CONFIG = 100" "minChunkSize (smallConfig 7 2 6) = 6"
    by (simp_all add: DEFAULT_CHUNKING_CONFIG_def smallConfig_def)
  with csv free show ?thesis
    by blast
qed

subsection \<open>Indices and token estimates\<close>

lemma positioned_Nil [simp]: "positioned []"
  by (simp add: positioned_def)

lemma positioned_snoc:
  "positioned cs \<Longrightarrow> chunk_index (metadata c) = length cs \<Longrightarrow> positioned (cs @ [c])"
  by (simp add: positioned_def)

lemma chunkCSV_loop_positioned:
  "positioned chunks \<Longrightarrow> positioned (chunkCSV_loop lines headers fileName linesPerChunk i chunks)"
proof (induction lines headers fileName linesPerChunk i chunks rule: chunkCSV_loop.induct)
  case (1 lines headers fileName linesPerChunk i chunks)
  show ?case
  proof (cases "i < length lines \<and> 0 < linesPerChunk")
    case True
    let ?c = "csvChunk fileName (length lines) linesPerChunk i (length chunks)
                (headers @ [10] @ js_join [10] (slice lines i (i + linesPerChunk)))"
    have "positioned (chunks @ [?c])"
      using "1.prems" by (intro positioned_snoc) (simp_all add: csvChunk_def)
    from "1.IH" [OF True refl refl this] True show ?thesis
      by (subst chunkCSV_loop.simps) (simp add: Let_def)
  next
    case False
    with "1.prems" show ?thesis
      by (subst chunkCSV_loop.simps) auto
  qed
qed

lemma chunkJSON_loop_positioned:
  "positioned chunks \<Longrightarrow> positioned (chunkJSON_loop stringify data fileName itemsPerChunk i chunks)"
proof (induction stringify data fileName itemsPerChunk i chunks rule: chunkJSON_loop.induct)
  case (1 stringify data fileName itemsPerChunk i chunks)
  show ?case
  proof (cases "i < length data \<and> 0 < itemsPerChunk")
    case True
    let ?c = "jsonChunk fileName (length data) itemsPerChunk i (length chunks)
                (stringify (JArray (slice data i (i + itemsPerChunk))))"
    have "positioned (chunks @ [?c])"
      using "1.prems" by (intro positioned_snoc) (simp_all add: jsonChunk_def)
    from "1.IH" [OF True refl refl this] True show ?thesis
      by (subst chunkJSON_loop.simps) (simp add: Let_def)
  next
    case False
    with "1.prems" show ?thesis
      by (subst chunkJSON_loop.simps) auto
  qed
qed

lemma chunkText_step_positioned:
  "positioned (fst st) \<Longrightarrow> positioned (fst (chunkText_step text fileName config st paragraph))"
  by (cases st) (auto simp: chunkText_step_def Let_def textChunk_def intro: positioned_snoc)

lemma chunkText_fold_positioned:
  "positioned (fst st)
   \<Longrightarrow> positioned (fst (foldl (chunkText_step text fileName config) st paragraphs))"
proof (induction paragraphs arbitrary: st)
  case Nil
  then show ?case by simp
next
  case (Cons p ps)
  from Cons.prems have "positioned (fst (chunkText_step text fileName config st p))"
    by (rule chunkText_step_positioned)
  from Cons.IH [OF this] show ?case by simp
qed

lemma chunkText_positioned: "positioned (chunkText text fileName config)"
proof -
  obtain chunks currentChunk chunkStart where st:
    "foldl (chunkText_step text fileName config) ([], [], 0) (split_blank [] text)
     = (chunks, currentChunk, chunkStart)"
    by (metis prod_cases3)
  from chunkText_fold_positioned [of "([], [], 0)" "text" fileName config "split_blank [] text"] st
  have "positioned chunks" by simp
  then show ?thesis
    by (auto simp: chunkText_def st textChunk_def intro: positioned_snoc)
qed

lemma chunkCSV_positioned: "positioned (chunkCSV fdiv csvContent fileName config)"
  by (auto simp: chunkCSV_def Let_def split: list.splits intro: chunkCSV_loop_positioned)

lemma chunkJSON_positioned: "positioned (chunkJSON fdiv parse stringify jsonContent fileName config)"
  by (auto simp: chunkJSON_def Let_def chunkText_positioned split: option.splits json.splits
      intro: chunkJSON_loop_positioned)

lemma chunkContent_positioned:
  "positioned (chunkContent fdiv parse stringify text fileType fileName config)"
  by (simp add: chunkContent_def Let_def chunkCSV_positioned chunkJSON_positioned
      chunkText_positioned chunkPDF_def)

lemma chunkContent_chunk_index:
  "j < length (chunkContent fdiv parse stringify text fileType fileName config)
   \<Longrightarrow> chunk_index (metadata (chunkContent fdiv parse stringify text fileType fileName config ! j)) = j"
  using chunkContent_positioned [of fdiv parse stringify "text" fileType fileName config]
  by (auto simp: positioned_def dest: arg_cong [where f = "\<lambda>xs. xs ! j"])

text \<open>
  Claim C8 does not hold of the code. The indices are the positions, under every strategy
  (\<open>chunkContent_positioned\<close> above), but the free-text strategy estimates the tokens of
  the untrimmed buffer and emits the trimmed one: the chunk of index 1 below has a content
  of 4 code units, whose estimate is 1, and carries the estimate 2 of the 5 units of the
  buffer.
\<close>

theorem chunkText_tokens_of_untrimmed:
  "map (\<lambda>c. (chunk_index (metadata c), content c, tokens (metadata c)))
     (chunkContent fdiv parse stringify threeParagraphs (str ''txt'') (str ''f.txt'') (smallConfig 6 2 1))
   = [(0, str ''abcd e'', 2), (1, str ''e\<newline>\<newline>f'', 2), (2, str ''f\<newline>\<newline>gh'', 2)]
   \<and> estimateTokens (str ''e\<newline>\<newline>f'') = 1"
proof -
  have "chunkContent fdiv parse stringify threeParagraphs (str ''txt'') (str ''f.txt'') (smallConfig 6 2 1)
        = chunkText threeParagraphs (str ''f.txt'') (smallConfig 6 2 1)"
    by (simp add: chunkContent_def toLowerCase_def str_def)
  with chunkText_three show ?thesis
    by (simp add: estimateTokens_def str_def)
qed

subsection \<open>The separator of a table\<close>

lemma split_on_nonempty: "split_on sep cur s \<noteq> []"
  by (induction sep cur s rule: split_on.induct) (subst split_on.simps, auto split: list.splits)

text \<open>
  On the line it is given, the loop over the candidates does what it is written for: it
  returns a candidate, and no candidate yields more columns.
\<close>

lemma detectSeparator_best:
  "detectSeparator line \<in> set separators
   \<and> list_all (\<lambda>sep. length (split_on sep [] line)
                         \<le> length (split_on (detectSeparator line) [] line)) separators"
  using split_on_nonempty [of "str '',''" "[]" line]
  by (auto simp: detectSeparator_def separators_def detectSeparator_step_def Let_def)

lemma parseCSV_lines_tab: "parseCSV_lines tabTable = [tabTable]"
  by (simp add: parseCSV_lines_def tabTable_def split_on.simps str_def trim_def isWhiteSpace_def)

lemma parseCSV_lines_comma: "parseCSV_lines commaTable = [commaTable]"
  by (simp add: parseCSV_lines_def commaTable_def split_on.simps str_def trim_def isWhiteSpace_def)

lemma detectSeparator_tab: "detectSeparator tabTable = str '',''"
  by (simp add: detectSeparator_def separators_def detectSeparator_step_def tabTable_def
      split_on.simps str_def)

lemma detectSeparator_comma: "detectSeparator commaTable = str '';''"
  by (simp add: detectSeparator_def separators_def detectSeparator_step_def commaTable_def
      split_on.simps str_def)

text \<open>
  Claim C5 does not hold of the code. The tabular strategy of the chunker
  (\<^verbatim>\<open>chunkCSV\<close>) has no delimiter logic; the detection of the repository is in
  \<^verbatim>\<open>parseCSV\<close> of the file parser, and two escapes are doubled there. The tab candidate
  is written \<^verbatim>\<open>'\\t'\<close>, so on a table separated by tabs the parser keeps the comma, which
  yields one column on the header where the tab yields two. The text is cut at
  \<^verbatim>\<open>'\\n'\<close>, so \<^verbatim>\<open>lines[0]\<close> is the whole file and not its header line: on a table
  separated by commas whose row holds semicolons, the parser picks the semicolon, although
  on the header the comma yields two columns and the semicolon one. In both runs the
  parser reports no row, and columns that run across the line feed.
\<close>

theorem parseCSV_separator_slips:
  "parseCSV_bestSeparator tabTable = Inr (str '','')
   \<and> hd (split_lines tabTable) = tabHeader
   \<and> map (\<lambda>sep. length (split_on sep [] tabHeader)) [str '','', str '';'', [9]] = [1, 1, 2]
   \<and> parseCSV tabTable = Inr \<lparr>csv_columns = [tabTable], csv_rows = 0\<rparr>
   \<and> parseCSV_bestSeparator commaTable = Inr (str '';'')
   \<and> hd (split_lines commaTable) = commaHeader
   \<and> map (\<lambda>sep. length (split_on sep [] commaHeader)) [str '','', str '';'', [9]] = [2, 1, 1]
   \<and> parseCSV commaTable
       = Inr \<lparr>csv_columns = [str ''a,b\<newline>1'', str ''2'', str ''3,4'', str ''5''], csv_rows = 0\<rparr>"
proof -
  have "parseCSV_bestSeparator tabTable = Inr (str '','')"
    by (simp add: parseCSV_bestSeparator_def parseCSV_lines_tab detectSeparator_tab)
  moreover have "hd (split_lines tabTable) = tabHeader"
    by (simp add: split_lines_def tabTable_def tabHeader_def str_def)
  moreover have
    "map (\<lambda>sep. length (split_on sep [] tabHeader)) [str '','', str '';'', [9]] = [1, 1, 2]"
    by (simp add: tabHeader_def split_on.simps str_def)
  moreover have "parseCSV tabTable = Inr \<lparr>csv_columns = [tabTable], csv_rows = 0\<rparr>"
  proof -
    have "map unquote (split_on (str '','') [] tabTable) = [tabTable]"
      by (simp add: tabTable_def split_on.simps str_def unquote_def trim_def isWhiteSpace_def)
    then show ?thesis
      by (simp add: parseCSV_def parseCSV_lines_tab detectSeparator_tab Let_def)
  qed
  moreover have "parseCSV_bestSeparator commaTable = Inr (str '';'')"
    by (simp add: parseCSV_bestSeparator_def parseCSV_lines_comma detectSeparator_comma)
  moreover have "hd (split_lines commaTable) = commaHeader"
    by (simp add: split_lines_def commaTable_def commaHeader_def str_def)
  moreover have
    "map (\<lambda>sep. length (split_on sep [] commaHeader)) [str '','', str '';'', [9]] = [2, 1, 1]"
    by (simp add: commaHeader_def split_on.simps str_def)
  moreover have "parseCSV commaTable
       = Inr \<lparr>csv_columns = [str ''a,b\<newline>1'', str ''2'', str ''3,4'', str ''5''], csv_rows = 0\<rparr>"
  proof -
    have "map unquote (split_on (str '';'') [] commaTable)
          = [str ''a,b\<newline>1'', str ''2'', str ''3,4'', str ''5'']"
      by (simp add: commaTable_def split_on.simps str_def unquote_def trim_def isWhiteSpace_def)
    then show ?thesis
      by (simp add: parseCSV_def parseCSV_lines_comma detectSeparator_comma Let_def)
  qed
  ultimately show ?thesis
    by blast
qed

section \<open>Properties of the embedding service\<close>

subsection \<open>The requests of a batch\<close>

lemma foldl_tokens: "foldl (\<lambda>sum chunk. sum + tokens (metadata chunk)) a batch
   = a + sum_list (map (\<lambda>chunk. tokens (metadata chunk)) batch)"
  by (induction batch arbitrary: a) auto

lemma batches_of_drop:
  "i < length xs \<Longrightarrow> batches_of (drop i xs) = slice xs i (i + batchSize) # batches_of (drop (i + batchSize) xs)"
  by (subst batches_of.simps) (simp add: slice_def add.commute)

lemma batches_of_Nil [simp]: "batches_of [] = []"
  by (subst batches_of.simps) simp

lemma concat_batches_of: "concat (batches_of xs) = xs"
  by (induction xs rule: batches_of.induct) (subst batches_of.simps, simp)

text \<open>
  \<^verbatim>\<open>generateGeminiBatch\<close> and \<^verbatim>\<open>generateBatch\<close> do to a batch what \<open>request_run\<close> says:
  they send the requests up to the first one that fails, and throw its exception.
\<close>

lemma not_vector: "\<not> is_vector r \<Longrightarrow> \<exists>e. embedding_of_response r = Inl e"
  by (cases r) auto

lemma generateGeminiBatch_requests:
  "generateGeminiBatch fetch key provider chunks acc c
   = (let rs = responses fetch key provider chunks c; a = answered rs
      in if a = length chunks then (Inr (acc @ vectors_of rs), c + length chunks)
         else (case embedding_of_response (rs ! a) of Inl e \<Rightarrow> Inl e | Inr v \<Rightarrow> Inr [],
               c + Suc a))"
proof (induction chunks arbitrary: acc c)
  case Nil
  then show ?case by (simp add: answered_def vectors_of_def)
next
  case (Cons chunk chunks)
  let ?r = "fetch c (gemini_request_for key provider (content chunk))"
  show ?case
  proof (cases "is_vector ?r")
    case True
    then obtain v where v: "?r = Values v" by (cases ?r) auto
    show ?thesis
      using Cons.IH [of "acc @ [v]" "Suc c"] v
      by (simp add: answered_def vectors_of_def Let_def)
  next
    case False
    from not_vector [OF this] obtain e where "embedding_of_response ?r = Inl e" ..
    with False show ?thesis
      by (simp add: answered_def Let_def)
  qed
qed

lemma generateBatch_requests:
  "name provider = str ''Google Gemini''
   \<Longrightarrow> generateBatch fetch key provider batch c
       = (run_outcome (request_run fetch key provider batch c),
          c + run_sent (request_run fetch key provider batch c))"
  by (simp add: generateBatch_def generateGeminiBatch_requests request_run_def Let_def)


lemma run_batch_request_run [simp]: "run_batch (request_run fetch key provider batch c) = batch"
  by (simp add: request_run_def Let_def)

subsection \<open>The loop of generateEmbeddings\<close>

lemma loop_runs:
  "name provider = str ''Google Gemini''
   \<Longrightarrow> generateEmbeddings_loop fetch key provider chunks i (V, E, T, c) = (V', E', T', c')
   \<Longrightarrow> V' = V @ concat (map (batch_vectors provider)
                          (request_runs fetch key provider (batches_of (drop i chunks)) c))
     \<and> E' = E @ concat (map batch_errors (enumerate (i div batchSize + 1)
                          (request_runs fetch key provider (batches_of (drop i chunks)) c)))
     \<and> T' = T + sum_list (map batch_tokens
                          (request_runs fetch key provider (batches_of (drop i chunks)) c))
     \<and> c' = c + sum_list (map run_sent
                          (request_runs fetch key provider (batches_of (drop i chunks)) c))"
proof (induction fetch key provider chunks i "(V, E, T, c)" arbitrary: V E T c
    rule: generateEmbeddings_loop.induct)
  case (1 fetch key provider chunks i)
  note gemini = "1.prems"(1)
  note run = "1.prems"(2)
  show ?case
  proof (cases "i < length chunks")
    case False
    with run show ?thesis
      by (simp add: generateEmbeddings_loop.simps)
  next
    case True
    let ?batch = "slice chunks i (i + batchSize)"
    let ?run = "request_run fetch key provider ?batch c"
    have gb: "generateBatch fetch key provider ?batch c = (run_outcome ?run, c + run_sent ?run)"
      using gemini by (rule generateBatch_requests)
    have div: "(i + batchSize) div batchSize = i div batchSize + 1"
      by (simp add: batchSize_def)
    show ?thesis
    proof (cases "run_outcome ?run")
      case (Inr vs)
      have step: "generateEmbeddings_loop fetch key provider chunks (i + batchSize)
              (V @ vs, E, T + foldl (\<lambda>sum chunk. sum + tokens (metadata chunk)) 0 ?batch,
               c + run_sent ?run) = (V', E', T', c')"
        using run True gb Inr by (subst (asm) generateEmbeddings_loop.simps) (simp add: Let_def)
      from "1.hyps"(2) [OF refl refl refl True refl gb [symmetric] Inr gemini step] gb Inr
      show ?thesis
        using True
        by (simp add: batches_of_drop div foldl_tokens enumerate_simps batch_vectors_def
            batch_tokens_def batch_errors_def)
    next
      case (Inl e)
      have step: "generateEmbeddings_loop fetch key provider chunks (i + batchSize)
              (V @ replicate (length ?batch) (replicate (dimensions provider) 0),
               E @ [str ''Erreur batch '' @ show_nat (i div batchSize + 1) @ str '': '' @ render e],
               T, c + run_sent ?run) = (V', E', T', c')"
        using run True gb Inl by (subst (asm) generateEmbeddings_loop.simps) (simp add: Let_def)
      from "1.hyps"(1) [OF refl refl refl True refl gb [symmetric] Inl refl gemini step] gb Inl
      show ?thesis
        using True
        by (simp add: batches_of_drop div enumerate_simps batch_vectors_def
            batch_tokens_def batch_errors_def)
    qed
  qed
qed


subsection \<open>The outcome of a batch, request by request\<close>

lemma responses_length [simp]: "length (responses fetch key provider chunks c) = length chunks"
  by (induction chunks arbitrary: c) auto

lemma responses_nth:
  "m < length chunks
   \<Longrightarrow> responses fetch key provider chunks c ! m
       = fetch (c + m) (gemini_request_for key provider (content (chunks ! m)))"
proof (induction chunks arbitrary: c m)
  case Nil
  then show ?case by simp
next
  case (Cons chunk chunks)
  then show ?case by (cases m) auto
qed

lemma is_vector_iff: "is_vector r \<longleftrightarrow> (\<exists>v. r = Values v)"
  by (cases r) auto

lemma answered_all:
  "answered rs = length rs
   \<Longrightarrow> length (vectors_of rs) = length rs \<and> (\<forall>m < length rs. rs ! m = Values (vectors_of rs ! m))"
proof (induction rs)
  case Nil
  then show ?case by (simp add: vectors_of_def)
next
  case (Cons r rs)
  have le: "length (takeWhile is_vector rs) \<le> length rs"
    by (rule length_takeWhile_le)
  from Cons.prems le obtain v where v: "r = Values v"
    by (cases r) (auto simp: answered_def)
  with Cons.prems have "answered rs = length rs"
    by (simp add: answered_def)
  from Cons.IH [OF this] v show ?case
    by (auto simp: vectors_of_def nth_Cons split: nat.splits)
qed

lemma answered_first_failure:
  "answered rs \<noteq> length rs
   \<Longrightarrow> answered rs < length rs \<and> \<not> is_vector (rs ! answered rs)
       \<and> (\<forall>m < answered rs. is_vector (rs ! m))"
proof (intro conjI allI impI)
  assume ne: "answered rs \<noteq> length rs"
  show lt: "answered rs < length rs"
    using ne length_takeWhile_le [of is_vector rs] by (simp add: answered_def)
  show "\<not> is_vector (rs ! answered rs)"
    using lt unfolding answered_def by (rule nth_length_takeWhile)
  fix m assume m: "m < answered rs"
  then have "takeWhile is_vector rs ! m \<in> set (takeWhile is_vector rs)"
    by (simp add: answered_def)
  then have "is_vector (takeWhile is_vector rs ! m)"
    by (rule set_takeWhileD [THEN conjunct2])
  with m show "is_vector (rs ! m)"
    by (simp add: answered_def takeWhile_nth)
qed

lemma request_run_Inr:
  assumes "run_outcome (request_run fetch key provider batch c) = Inr vs"
  shows "run_sent (request_run fetch key provider batch c) = length batch
         \<and> length vs = length batch
         \<and> (\<forall>m < length batch.
                fetch (c + m) (gemini_request_for key provider (content (batch ! m))) = Values (vs ! m))"
proof (cases "answered (responses fetch key provider batch c) = length batch")
  case True
  with assms have vs: "vs = vectors_of (responses fetch key provider batch c)"
    by (simp add: request_run_def Let_def)
  from True have "answered (responses fetch key provider batch c)
                  = length (responses fetch key provider batch c)"
    by simp
  from answered_all [OF this] True vs show ?thesis
    by (simp add: request_run_def Let_def responses_nth)
next
  case False
  then have "answered (responses fetch key provider batch c)
             \<noteq> length (responses fetch key provider batch c)"
    by simp
  from answered_first_failure [OF this] not_vector
  obtain e where "embedding_of_response
      (responses fetch key provider batch c ! answered (responses fetch key provider batch c)) = Inl e"
    by blast
  with False assms show ?thesis
    by (simp add: request_run_def Let_def)
qed

lemma request_run_Inl:
  assumes "run_outcome (request_run fetch key provider batch c) = Inl e"
  shows "\<exists>a < length batch.
           run_sent (request_run fetch key provider batch c) = Suc a
           \<and> embedding_of_response
                 (fetch (c + a) (gemini_request_for key provider (content (batch ! a)))) = Inl e
           \<and> (\<forall>m < a. \<exists>v. fetch (c + m) (gemini_request_for key provider (content (batch ! m)))
                              = Values v)"
proof (cases "answered (responses fetch key provider batch c) = length batch")
  case True
  with assms show ?thesis
    by (simp add: request_run_def Let_def)
next
  case False
  let ?rs = "responses fetch key provider batch c"
  let ?a = "answered ?rs"
  from False have "?a \<noteq> length ?rs"
    by simp
  from answered_first_failure [OF this]
  have lt: "?a < length batch" and bad: "\<not> is_vector (?rs ! ?a)"
    and good: "\<forall>m < ?a. is_vector (?rs ! m)"
    by simp_all
  from not_vector [OF bad] obtain e' where e': "embedding_of_response (?rs ! ?a) = Inl e'" ..
  with False assms have "e' = e"
    by (simp add: request_run_def Let_def)
  with e' lt have fail: "embedding_of_response
          (fetch (c + ?a) (gemini_request_for key provider (content (batch ! ?a)))) = Inl e"
    by (simp add: responses_nth)
  have sent: "run_sent (request_run fetch key provider batch c) = Suc ?a"
    using False by (simp add: request_run_def Let_def)
  have "\<forall>m < ?a. \<exists>v. fetch (c + m) (gemini_request_for key provider (content (batch ! m)))
                              = Values v"
  proof (intro allI impI)
    fix m assume m: "m < ?a"
    with good have "is_vector (?rs ! m)" by blast
    moreover from m lt have "m < length batch" by simp
    ultimately show "\<exists>v. fetch (c + m) (gemini_request_for key provider (content (batch ! m)))
                              = Values v"
      by (simp add: responses_nth is_vector_iff)
  qed
  with lt sent fail show ?thesis
    by blast
qed


subsection \<open>The loop of generateEmbeddings, position by position\<close>

lemma position_ok_mono:
  "position_ok fetch key provider chunks lo hi V E j
   \<Longrightarrow> j < length V \<Longrightarrow> hi \<le> hi' \<Longrightarrow> set E \<subseteq> set E'
   \<Longrightarrow> position_ok fetch key provider chunks lo hi' (V @ W) E' j"
  unfolding position_ok_def
  by (simp add: nth_append) (meson less_le_trans subsetD)

lemma slice_batch:
  assumes "i < length chunks"
  shows "length (slice chunks i (i + batchSize)) = min batchSize (length chunks - i)"
    and "m < length (slice chunks i (i + batchSize))
         \<Longrightarrow> slice chunks i (i + batchSize) ! m = chunks ! (i + m)"
  using assms by (simp_all add: slice_def)

lemma div_batch:
  assumes "batchSize dvd i" and "x < batchSize"
  shows "(i + x) div batchSize = i div batchSize"
proof -
  from assms(1) obtain q where "i = batchSize * q" ..
  with assms(2) show ?thesis
    by (simp add: batchSize_def)
qed

lemma loop_positions:
  "name provider = str ''Google Gemini''
   \<Longrightarrow> generateEmbeddings_loop fetch key provider chunks i (V, E, T, c) = (V', E', T', c')
   \<Longrightarrow> batchSize dvd i
   \<Longrightarrow> length V = min i (length chunks)
   \<Longrightarrow> lo \<le> c
   \<Longrightarrow> (\<forall>j < length V. position_ok fetch key provider chunks lo c V E j)
   \<Longrightarrow> length V' = length chunks \<and> c \<le> c'
       \<and> (\<forall>j < length chunks. position_ok fetch key provider chunks lo c' V' E' j)"
proof (induction fetch key provider chunks i "(V, E, T, c)" arbitrary: V E T c
    rule: generateEmbeddings_loop.induct)
  case (1 fetch key provider chunks i)
  note gemini = "1.prems"(1)
  note run = "1.prems"(2)
  note dvd = "1.prems"(3)
  note len = "1.prems"(4)
  note lo = "1.prems"(5)
  note inv = "1.prems"(6)
  show ?case
  proof (cases "i < length chunks")
    case False
    with run have "V' = V" "E' = E" "c' = c"
      by (simp_all add: generateEmbeddings_loop.simps)
    with False len inv show ?thesis
      by simp
  next
    case True
    let ?batch = "slice chunks i (i + batchSize)"
    let ?run = "request_run fetch key provider ?batch c"
    have gb: "generateBatch fetch key provider ?batch c = (run_outcome ?run, c + run_sent ?run)"
      using gemini by (rule generateBatch_requests)
    have lenV: "length V = i"
      using len True by simp
    have lenb: "length ?batch = min batchSize (length chunks - i)"
      using True by (rule slice_batch(1))
    have nthb: "\<And>m. m < length ?batch \<Longrightarrow> ?batch ! m = chunks ! (i + m)"
      using True by (rule slice_batch(2))
    have dvd': "batchSize dvd i + batchSize"
      using dvd by simp
    show ?thesis
    proof (cases "run_outcome ?run")
      case (Inr vs)
      from request_run_Inr [OF Inr]
      have sent: "run_sent ?run = length ?batch" and lvs: "length vs = length ?batch"
        and ans: "\<forall>m < length ?batch.
                fetch (c + m) (gemini_request_for key provider (content (?batch ! m))) = Values (vs ! m)"
        by simp_all
      have step: "generateEmbeddings_loop fetch key provider chunks (i + batchSize)
              (V @ vs, E, T + foldl (\<lambda>sum chunk. sum + tokens (metadata chunk)) 0 ?batch,
               c + run_sent ?run) = (V', E', T', c')"
        using run True gb Inr by (subst (asm) generateEmbeddings_loop.simps) (simp add: Let_def)
      have len1: "length (V @ vs) = min (i + batchSize) (length chunks)"
        using lenV lvs lenb True by simp
      have lo1: "lo \<le> c + run_sent ?run"
        using lo by simp
      have inv1: "\<forall>j < length (V @ vs).
                    position_ok fetch key provider chunks lo (c + run_sent ?run) (V @ vs) E j"
      proof (intro allI impI)
        fix j assume j: "j < length (V @ vs)"
        show "position_ok fetch key provider chunks lo (c + run_sent ?run) (V @ vs) E j"
        proof (cases "j < length V")
          case True
          with inv have "position_ok fetch key provider chunks lo c V E j" by blast
          then show ?thesis
            using True by (rule position_ok_mono) simp_all
        next
          case False
          define m where "m = j - i"
          from False j lenV lvs have m: "m < length ?batch" "j = i + m"
            by (simp_all add: m_def)
          from ans m(1)
          have "fetch (c + m) (gemini_request_for key provider (content (?batch ! m)))
                = Values (vs ! m)"
            by blast
          then have "fetch (c + m) (gemini_request_for key provider (content (chunks ! (i + m))))
                = Values (vs ! m)"
            unfolding nthb [OF m(1)] .
          moreover have "(V @ vs) ! j = vs ! m"
            using m(2) lenV by (simp add: nth_append)
          moreover have "lo \<le> c + m" "c + m < c + run_sent ?run"
            using lo m(1) sent by simp_all
          ultimately show ?thesis
            unfolding position_ok_def m(2) by metis
        qed
      qed
      from "1.hyps"(2) [OF refl refl refl True refl gb [symmetric] Inr gemini step dvd' len1 lo1 inv1]
      show ?thesis
        by simp
    next
      case (Inl e)
      from request_run_Inl [OF Inl] obtain a where a: "a < length ?batch"
        and sent: "run_sent ?run = Suc a"
        and fail: "embedding_of_response
                 (fetch (c + a) (gemini_request_for key provider (content (?batch ! a)))) = Inl e"
        by blast
      let ?msg = "str ''Erreur batch '' @ show_nat (i div batchSize + 1) @ str '': '' @ render e"
      let ?Z = "replicate (length ?batch) (replicate (dimensions provider) (0 :: real))"
      have step: "generateEmbeddings_loop fetch key provider chunks (i + batchSize)
              (V @ ?Z, E @ [?msg], T, c + run_sent ?run) = (V', E', T', c')"
        using run True gb Inl by (subst (asm) generateEmbeddings_loop.simps) (simp add: Let_def)
      have len1: "length (V @ ?Z) = min (i + batchSize) (length chunks)"
        using lenV lenb True by simp
      have lo1: "lo \<le> c + run_sent ?run"
        using lo by simp
      have inv1: "\<forall>j < length (V @ ?Z).
                    position_ok fetch key provider chunks lo (c + run_sent ?run) (V @ ?Z) (E @ [?msg]) j"
      proof (intro allI impI)
        fix j assume j: "j < length (V @ ?Z)"
        show "position_ok fetch key provider chunks lo (c + run_sent ?run) (V @ ?Z) (E @ [?msg]) j"
        proof (cases "j < length V")
          case True
          with inv have "position_ok fetch key provider chunks lo c V E j" by blast
          then show ?thesis
            using True by (rule position_ok_mono) auto
        next
          case False
          define m where "m = j - i"
          from False j lenV have m: "m < length ?batch" "j = i + m"
            by (simp_all add: m_def)
          have zero: "(V @ ?Z) ! j = replicate (dimensions provider) 0"
            using m lenV by (simp add: nth_append)
          have ia: "i + a < length chunks"
            using a lenb True by auto
          have small: "a < batchSize" "m < batchSize"
            using a m(1) lenb by simp_all
          have same: "(i + a) div batchSize = j div batchSize" "j div batchSize = i div batchSize"
            using div_batch [OF dvd small(1)] div_batch [OF dvd small(2)] m(2) by simp_all
          have failed: "embedding_of_response
                 (fetch (c + a) (gemini_request_for key provider (content (chunks ! (i + a))))) = Inl e"
            using fail unfolding nthb [OF a] .
          have bounds: "lo \<le> c + a" "c + a < c + run_sent ?run"
            using lo sent by simp_all
          have msg: "str ''Erreur batch '' @ show_nat (j div batchSize + 1) @ str '': '' @ render e
                     \<in> set (E @ [?msg])"
            using same(2) by simp
          from zero ia same(1) failed bounds msg show ?thesis
            unfolding position_ok_def by blast
        qed
      qed
      from "1.hyps"(1) [OF refl refl refl True refl gb [symmetric] Inl refl gemini step dvd' len1 lo1 inv1]
      show ?thesis
        by simp
    qed
  qed
qed


subsection \<open>The loop of generateEmbeddings when every request is answered\<close>

lemma tokens_split:
  "sum_list (map g (drop i xs))
   = sum_list (map g (slice xs i (i + batchSize))) + sum_list (map g (drop (i + batchSize) xs))"
proof -
  have "map g (drop i xs)
        = map g (take batchSize (drop i xs)) @ map g (drop batchSize (drop i xs))"
    by (simp only: map_append [symmetric] append_take_drop_id)
  then show ?thesis
    by (simp add: slice_def add.commute)
qed

lemma loop_answered:
  "name provider = str ''Google Gemini''
   \<Longrightarrow> generateEmbeddings_loop fetch key provider chunks i (V, E, T, c) = (V', E', T', c')
   \<Longrightarrow> length V = min i (length chunks)
   \<Longrightarrow> c = lo + length V
   \<Longrightarrow> (\<forall>j < length chunks.
          \<exists>v. fetch (lo + j) (gemini_request_for key provider (content (chunks ! j))) = Values v)
   \<Longrightarrow> (\<forall>j < length V.
          fetch (lo + j) (gemini_request_for key provider (content (chunks ! j))) = Values (V ! j))
   \<Longrightarrow> length V' = length chunks
       \<and> (\<forall>j < length chunks.
             fetch (lo + j) (gemini_request_for key provider (content (chunks ! j))) = Values (V' ! j))
       \<and> E' = E \<and> c' = lo + length chunks
       \<and> T' = T + sum_list (map (\<lambda>chunk. tokens (metadata chunk)) (drop i chunks))"
proof (induction fetch key provider chunks i "(V, E, T, c)" arbitrary: V E T c
    rule: generateEmbeddings_loop.induct)
  case (1 fetch key provider chunks i)
  note gemini = "1.prems"(1)
  note run = "1.prems"(2)
  note len = "1.prems"(3)
  note calls = "1.prems"(4)
  note all = "1.prems"(5)
  note inv = "1.prems"(6)
  show ?case
  proof (cases "i < length chunks")
    case False
    with run have "V' = V" "E' = E" "c' = c" "T' = T"
      by (simp_all add: generateEmbeddings_loop.simps)
    with False len inv calls show ?thesis
      by simp
  next
    case True
    let ?batch = "slice chunks i (i + batchSize)"
    let ?run = "request_run fetch key provider ?batch c"
    have gb: "generateBatch fetch key provider ?batch c = (run_outcome ?run, c + run_sent ?run)"
      using gemini by (rule generateBatch_requests)
    have lenV: "length V = i"
      using len True by simp
    have c: "c = lo + i"
      using calls lenV by simp
    have lenb: "length ?batch = min batchSize (length chunks - i)"
      using True by (rule slice_batch(1))
    have nthb: "\<And>m. m < length ?batch \<Longrightarrow> ?batch ! m = chunks ! (i + m)"
      using True by (rule slice_batch(2))
    show ?thesis
    proof (cases "run_outcome ?run")
      case (Inl e)
      from request_run_Inl [OF Inl] obtain a where a: "a < length ?batch"
        and fail: "embedding_of_response
                 (fetch (c + a) (gemini_request_for key provider (content (?batch ! a)))) = Inl e"
        by blast
      have ia: "i + a < length chunks"
        using a lenb True by auto
      with all obtain v where
        "fetch (lo + (i + a)) (gemini_request_for key provider (content (chunks ! (i + a)))) = Values v"
        by blast
      moreover have "embedding_of_response
                 (fetch (lo + (i + a)) (gemini_request_for key provider (content (chunks ! (i + a)))))
                 = Inl e"
        using fail unfolding nthb [OF a] c by (simp add: add.assoc)
      ultimately show ?thesis
        by simp
    next
      case (Inr vs)
      from request_run_Inr [OF Inr]
      have sent: "run_sent ?run = length ?batch" and lvs: "length vs = length ?batch"
        and ans: "\<forall>m < length ?batch.
                fetch (c + m) (gemini_request_for key provider (content (?batch ! m))) = Values (vs ! m)"
        by simp_all
      have step: "generateEmbeddings_loop fetch key provider chunks (i + batchSize)
              (V @ vs, E, T + foldl (\<lambda>sum chunk. sum + tokens (metadata chunk)) 0 ?batch,
               c + run_sent ?run) = (V', E', T', c')"
        using run True gb Inr by (subst (asm) generateEmbeddings_loop.simps) (simp add: Let_def)
      have len1: "length (V @ vs) = min (i + batchSize) (length chunks)"
        using lenV lvs lenb True by simp
      have calls1: "c + run_sent ?run = lo + length (V @ vs)"
        using c sent lvs lenV by simp
      have inv1: "\<forall>j < length (V @ vs).
          fetch (lo + j) (gemini_request_for key provider (content (chunks ! j))) = Values ((V @ vs) ! j)"
      proof (intro allI impI)
        fix j assume j: "j < length (V @ vs)"
        show "fetch (lo + j) (gemini_request_for key provider (content (chunks ! j)))
              = Values ((V @ vs) ! j)"
        proof (cases "j < length V")
          case True
          with inv show ?thesis by (simp add: nth_append)
        next
          case False
          define m where "m = j - i"
          from False j lenV lvs have m: "m < length ?batch" "j = i + m"
            by (simp_all add: m_def)
          from ans m(1)
          have "fetch (c + m) (gemini_request_for key provider (content (?batch ! m)))
                = Values (vs ! m)"
            by blast
          then have "fetch (lo + (i + m)) (gemini_request_for key provider (content (chunks ! (i + m))))
                = Values (vs ! m)"
            unfolding nthb [OF m(1)] c by (simp add: add.assoc)
          moreover have "(V @ vs) ! j = vs ! m"
            using m(2) lenV by (simp add: nth_append)
          ultimately show ?thesis
            unfolding m(2) by simp
        qed
      qed
      from "1.hyps"(2) [OF refl refl refl True refl gb [symmetric] Inr gemini step len1 calls1 all inv1]
      show ?thesis
        by (simp add: foldl_tokens tokens_split [of _ i chunks])
    qed
  qed
qed

subsection \<open>The example runs\<close>

lemma configured_test: "isProviderConfigured testApiKey (str ''gemini-embedding-004'') = Inr True"
  by (simp add: isProviderConfigured_def EMBEDDING_PROVIDERS_def testApiKey_def truthy_def str_def)

lemma provider_test: "EMBEDDING_PROVIDERS (str ''gemini-embedding-004'') = Some geminiProvider"
  by (simp add: EMBEDDING_PROVIDERS_def geminiProvider_def)

lemma run_failing_second:
  "embedding_runs fetch_failing_second testApiKey geminiProvider mockChunks 0
   = [\<lparr>run_batch = mockChunks, run_sent = 2,
       run_outcome = Inl (Error (str ''API Gemini: 400 - Bad Request''))\<rparr>]"
  apply (simp add: embedding_runs_def batches_of.simps mockChunks_def batchSize_def request_run_def
      answered_def geminiProvider_def fetch_failing_second_def gemini_request_for_def mockChunk_def Let_def)
  apply (simp add: str_def show_nat.simps)
  done

lemma run_two_batches:
  "embedding_runs fetch_failing_second testApiKey geminiProvider twoBatches 0
   = [\<lparr>run_batch = mockChunk (str ''Deuxi'' @ [232] @ str ''me chunk de test'') 0 12
                     # replicate 99 (mockChunk (str ''Premier chunk de test'') 1 10),
       run_sent = 1,
       run_outcome = Inl (Error (str ''API Gemini: 400 - Bad Request''))\<rparr>,
      \<lparr>run_batch = [mockChunk (str ''Premier chunk de test'') 1 10],
       run_sent = 1,
       run_outcome = Inr [replicate 768 (1 / 2)]\<rparr>]"
  apply (simp add: embedding_runs_def batches_of.simps twoBatches_def batchSize_def)
  apply (simp add: request_run_def answered_def vectors_of_def Let_def
      fetch_failing_second_def gemini_request_for_def mockChunk_def)
  apply (simp add: str_def show_nat.simps)
  done


subsection \<open>generateEmbeddings\<close>

lemma isProviderConfigured_True:
  "isProviderConfigured key pk = Inr True
   \<Longrightarrow> \<exists>provider. EMBEDDING_PROVIDERS pk = Some provider \<and> name provider = str ''Google Gemini''"
  by (auto simp: isProviderConfigured_def split: option.splits if_splits)

lemma generateEmbeddings_result:
  assumes "isProviderConfigured key pk = Inr True"
    and "EMBEDDING_PROVIDERS pk = Some provider"
    and "generateEmbeddings_loop fetch key provider chunks 0 ([], [], 0, c) = (V, E, T, c')"
  shows "generateEmbeddings fetch key t0 t1 chunks pk c
         = Inr (\<lparr>embeddings = V,
                 stats = \<lparr>total_chunks = length chunks, total_embeddings = length V,
                          total_tokens = T, processing_time_ms = t1 - t0,
                          cost_estimate = (real T / 1000) * costPer1KTokens provider,
                          errors = E\<rparr>\<rparr>, c')"
  using assms by (simp add: generateEmbeddings_def)

lemma generateEmbeddings_runs:
  assumes "isProviderConfigured key pk = Inr True"
    and "EMBEDDING_PROVIDERS pk = Some provider"
  shows "\<exists>res c'. generateEmbeddings fetch key t0 t1 chunks pk c = Inr (res, c')
     \<and> embeddings res = concat (map (batch_vectors provider) (embedding_runs fetch key provider chunks c))
     \<and> errors (stats res) = concat (map batch_errors (enumerate 1 (embedding_runs fetch key provider chunks c)))
     \<and> total_tokens (stats res) = sum_list (map batch_tokens (embedding_runs fetch key provider chunks c))
     \<and> c' = c + sum_list (map run_sent (embedding_runs fetch key provider chunks c))
     \<and> cost_estimate (stats res) = (real (total_tokens (stats res)) / 1000) * costPer1KTokens provider
     \<and> total_chunks (stats res) = length chunks
     \<and> total_embeddings (stats res) = length (embeddings res)
     \<and> length (embeddings res) = length chunks
     \<and> (\<forall>j < length chunks.
           position_ok fetch key provider chunks c c' (embeddings res) (errors (stats res)) j)"
proof -
  from isProviderConfigured_True [OF assms(1)] assms(2)
  have gemini: "name provider = str ''Google Gemini''"
    by auto
  obtain V E T c' where loop:
    "generateEmbeddings_loop fetch key provider chunks 0 ([], [], 0, c) = (V, E, T, c')"
    by (metis prod_cases4)
  from loop_runs [OF gemini loop]
  have runs: "V = concat (map (batch_vectors provider) (embedding_runs fetch key provider chunks c))"
    "E = concat (map batch_errors (enumerate 1 (embedding_runs fetch key provider chunks c)))"
    "T = sum_list (map batch_tokens (embedding_runs fetch key provider chunks c))"
    "c' = c + sum_list (map run_sent (embedding_runs fetch key provider chunks c))"
    by (simp_all add: embedding_runs_def)
  from loop_positions [OF gemini loop, of c]
  have pos: "length V = length chunks"
    "\<forall>j < length chunks. position_ok fetch key provider chunks c c' V E j"
    by simp_all
  define res where
    "res = \<lparr>embeddings = V,
            stats = \<lparr>total_chunks = length chunks, total_embeddings = length V,
                     total_tokens = T, processing_time_ms = t1 - t0,
                     cost_estimate = (real T / 1000) * costPer1KTokens provider,
                     errors = E\<rparr>\<rparr>"
  have gen: "generateEmbeddings fetch key t0 t1 chunks pk c = Inr (res, c')"
    unfolding res_def by (rule generateEmbeddings_result [OF assms loop])
  have sel: "embeddings res = V" "errors (stats res) = E" "total_tokens (stats res) = T"
    "cost_estimate (stats res) = (real T / 1000) * costPer1KTokens provider"
    "total_chunks (stats res) = length chunks" "total_embeddings (stats res) = length V"
    by (simp_all add: res_def)
  show ?thesis
  proof (intro exI [of _ res] exI [of _ c'] conjI)
    show "generateEmbeddings fetch key t0 t1 chunks pk c = Inr (res, c')"
      by (rule gen)
    show "embeddings res
          = concat (map (batch_vectors provider) (embedding_runs fetch key provider chunks c))"
      unfolding sel by (rule runs)
    show "errors (stats res)
          = concat (map batch_errors (enumerate 1 (embedding_runs fetch key provider chunks c)))"
      unfolding sel by (rule runs)
    show "total_tokens (stats res)
          = sum_list (map batch_tokens (embedding_runs fetch key provider chunks c))"
      unfolding sel by (rule runs)
    show "c' = c + sum_list (map run_sent (embedding_runs fetch key provider chunks c))"
      by (rule runs)
    show "cost_estimate (stats res) = (real (total_tokens (stats res)) / 1000) * costPer1KTokens provider"
      unfolding sel by (rule refl)
    show "total_chunks (stats res) = length chunks"
      by (rule sel)
    show "total_embeddings (stats res) = length (embeddings res)"
      unfolding sel by (rule refl)
    show "length (embeddings res) = length chunks"
      unfolding sel by (rule pos)
    show "\<forall>j < length chunks.
           position_ok fetch key provider chunks c c' (embeddings res) (errors (stats res)) j"
      unfolding sel by (rule pos)
  qed
qed


lemma generateEmbeddings_answered:
  assumes "isProviderConfigured key pk = Inr True"
    and "EMBEDDING_PROVIDERS pk = Some provider"
    and "\<forall>j < length chunks.
           \<exists>v. fetch (c + j) (gemini_request_for key provider (content (chunks ! j))) = Values v"
  shows "\<exists>res. generateEmbeddings fetch key t0 t1 chunks pk c = Inr (res, c + length chunks)
           \<and> (\<forall>j < length chunks.
                 fetch (c + j) (gemini_request_for key provider (content (chunks ! j)))
                 = Values (embeddings res ! j))
           \<and> errors (stats res) = []
           \<and> total_tokens (stats res) = sum_list (map (\<lambda>chunk. tokens (metadata chunk)) chunks)"
proof -
  from isProviderConfigured_True [OF assms(1)] assms(2)
  have gemini: "name provider = str ''Google Gemini''"
    by auto
  obtain V E T c' where loop:
    "generateEmbeddings_loop fetch key provider chunks 0 ([], [], 0, c) = (V, E, T, c')"
    by (metis prod_cases4)
  from loop_answered [OF gemini loop _ _ assms(3)]
  have facts: "\<forall>j < length chunks.
             fetch (c + j) (gemini_request_for key provider (content (chunks ! j))) = Values (V ! j)"
    "E = []" "c' = c + length chunks"
    "T = sum_list (map (\<lambda>chunk. tokens (metadata chunk)) chunks)"
    by simp_all
  show ?thesis
    unfolding generateEmbeddings_result [OF assms(1,2) loop] facts(3)
    using facts(1,2,4) by simp
qed

text \<open>
  A run of one batch in which a request fails: the first request that does not yield a
  vector makes \<^verbatim>\<open>generateGeminiBatch\<close> throw, after that many calls, and the result holds
  zero vectors at every position, one error, no token.
\<close>

lemma generateGeminiBatch_first_failure:
  "j < length chunks
   \<Longrightarrow> (\<forall>m < j. \<exists>v. fetch (c + m) (gemini_request_for key provider (content (chunks ! m))) = Values v)
   \<Longrightarrow> embedding_of_response
         (fetch (c + j) (gemini_request_for key provider (content (chunks ! j)))) = Inl e
   \<Longrightarrow> generateGeminiBatch fetch key provider chunks acc c = (Inl e, c + j + 1)"
proof (induction chunks arbitrary: j acc c)
  case Nil
  then show ?case by simp
next
  case (Cons chunk chunks)
  show ?case
  proof (cases j)
    case 0
    with Cons.prems show ?thesis by simp
  next
    case (Suc j')
    from Cons.prems(2) Suc obtain v where
      v: "fetch c (gemini_request_for key provider (content chunk)) = Values v"
      by fastforce
    have "generateGeminiBatch fetch key provider chunks (acc @ [v]) (Suc c)
          = (Inl e, Suc c + j' + 1)"
    proof (rule Cons.IH)
      show "j' < length chunks" using Cons.prems(1) Suc by simp
      show "\<forall>m<j'. \<exists>v. fetch (Suc c + m) (gemini_request_for key provider (content (chunks ! m)))
                         = Values v"
      proof (intro allI impI)
        fix m assume "m < j'"
        then have "Suc m < j" using Suc by simp
        with Cons.prems(2) show "\<exists>v. fetch (Suc c + m)
              (gemini_request_for key provider (content (chunks ! m))) = Values v"
          by fastforce
      qed
      show "embedding_of_response
              (fetch (Suc c + j') (gemini_request_for key provider (content (chunks ! j')))) = Inl e"
        using Cons.prems(3) Suc by simp
    qed
    with v Suc show ?thesis by simp
  qed
qed


lemma generateEmbeddings_failing_batch:
  assumes "isProviderConfigured key pk = Inr True"
    and "EMBEDDING_PROVIDERS pk = Some provider"
    and "chunks \<noteq> []" and "length chunks \<le> batchSize"
    and "j < length chunks"
    and "\<forall>m < j. \<exists>v. fetch (c + m) (gemini_request_for key provider (content (chunks ! m))) = Values v"
    and "embedding_of_response
           (fetch (c + j) (gemini_request_for key provider (content (chunks ! j)))) = Inl e"
  shows "\<exists>res. generateEmbeddings fetch key t0 t1 chunks pk c = Inr (res, c + j + 1)
           \<and> embeddings res = replicate (length chunks) (replicate (dimensions provider) 0)
           \<and> errors (stats res) = [str ''Erreur batch 1: '' @ render e]
           \<and> total_tokens (stats res) = 0"
proof -
  from isProviderConfigured_True [OF assms(1)] assms(2)
  have gemini: "name provider = str ''Google Gemini''"
    by auto
  have batch: "slice chunks 0 batchSize = chunks"
    using assms(4) by (simp add: slice_def)
  have gb: "generateBatch fetch key provider chunks c = (Inl e, c + j + 1)"
    using generateGeminiBatch_first_failure [OF assms(5,6,7)] gemini
    by (simp add: generateBatch_def)
  have "generateEmbeddings_loop fetch key provider chunks 0 ([], [], 0, c)
        = generateEmbeddings_loop fetch key provider chunks batchSize
            (replicate (length chunks) (replicate (dimensions provider) 0),
             [str ''Erreur batch '' @ show_nat 1 @ str '': '' @ render e], 0, c + j + 1)"
    using assms(3) gb batch by (subst generateEmbeddings_loop.simps) (simp add: batchSize_def)
  also have "\<dots> = (replicate (length chunks) (replicate (dimensions provider) 0),
             [str ''Erreur batch '' @ show_nat 1 @ str '': '' @ render e], 0, c + j + 1)"
    using assms(4) by (subst generateEmbeddings_loop.simps) simp
  finally show ?thesis
    using assms(1,2) by (simp add: generateEmbeddings_def show_nat.simps str_def)
qed

subsection \<open>The example requests\<close>

lemma list_of_three: "length xs = 3 \<Longrightarrow> xs = [xs ! 0, xs ! 1, xs ! 2]"
  by (auto simp: numeral_3_eq_3 length_Suc_conv)

lemma mockChunks_length: "length mockChunks = 3"
  by (simp add: mockChunks_def)

lemma fetch_echo_mock:
  "fetch_echo (0 + 0) (gemini_request_for testApiKey geminiProvider (content (mockChunks ! 0))) = Values [21, 0]"
  "fetch_echo (0 + 1) (gemini_request_for testApiKey geminiProvider (content (mockChunks ! 1))) = Values [22, 1]"
  "fetch_echo (0 + 2) (gemini_request_for testApiKey geminiProvider (content (mockChunks ! 2))) = Values [21, 2]"
  by (simp_all add: fetch_echo_def gemini_request_for_def mockChunks_def mockChunk_def str_def)

lemma fetch_echo_answers:
  "\<forall>j < length mockChunks.
     \<exists>v. fetch_echo (0 + j) (gemini_request_for testApiKey geminiProvider (content (mockChunks ! j)))
         = Values v"
  by (simp add: fetch_echo_def)

lemma fetch_failing_second_refuses:
  "fetch_failing_second k (gemini_request_for testApiKey geminiProvider (content (mockChunks ! 1)))
   = NotOk 400 (str ''Bad Request'')"
  by (simp add: fetch_failing_second_def gemini_request_for_def mockChunks_def mockChunk_def)

lemma fetch_failing_second_first:
  "\<forall>m < 1. \<exists>v. fetch_failing_second (0 + m)
                   (gemini_request_for testApiKey geminiProvider (content (mockChunks ! m))) = Values v"
  by (simp add: fetch_failing_second_def gemini_request_for_def mockChunks_def mockChunk_def str_def)

lemma fetch_failing_second_second:
  "embedding_of_response
     (fetch_failing_second (0 + 1)
        (gemini_request_for testApiKey geminiProvider (content (mockChunks ! 1))))
   = Inl (Error (str ''API Gemini: 400 - Bad Request''))"
  unfolding fetch_failing_second_refuses by (simp add: str_def show_nat.simps)

subsection \<open>Alignment of vectors and chunks\<close>

text \<open>
  Claim C1. With a configured provider \<^verbatim>\<open>generateEmbeddings\<close> returns, whatever the
  provider answers, and the list of vectors is as long as the list of chunks. Position
  \<open>j\<close> holds the vector that a request of the run, sent for chunk \<open>j\<close>, was answered with;
  or it holds the zero vector of the provider's dimension, and then a request of the run,
  sent for a chunk of the same batch of 100, failed, and the error string of that batch
  with the exception of that request is in the error list. When the provider answers
  every request, call number \<open>c + j\<close> being the request for chunk \<open>j\<close>, position \<open>j\<close>
  holds the answer to that call, no error is recorded, and the run makes as many calls as
  there are chunks.
\<close>

theorem generateEmbeddings_aligned:
  assumes "isProviderConfigured key pk = Inr True"
    and "EMBEDDING_PROVIDERS pk = Some provider"
  shows "\<exists>res c'. generateEmbeddings fetch key t0 t1 chunks pk c = Inr (res, c')
     \<and> length (embeddings res) = length chunks
     \<and> (\<forall>j < length chunks.
           (\<exists>k. c \<le> k \<and> k < c'
                \<and> fetch k (gemini_request_for key provider (content (chunks ! j)))
                    = Values (embeddings res ! j))
           \<or> (embeddings res ! j = replicate (dimensions provider) 0
              \<and> (\<exists>m k e. m < length chunks \<and> m div batchSize = j div batchSize \<and> c \<le> k \<and> k < c'
                     \<and> embedding_of_response
                           (fetch k (gemini_request_for key provider (content (chunks ! m)))) = Inl e
                     \<and> str ''Erreur batch '' @ show_nat (j div batchSize + 1) @ str '': '' @ render e
                         \<in> set (errors (stats res)))))
     \<and> ((\<forall>j < length chunks.
            \<exists>v. fetch (c + j) (gemini_request_for key provider (content (chunks ! j))) = Values v)
          \<longrightarrow> (\<forall>j < length chunks.
                 fetch (c + j) (gemini_request_for key provider (content (chunks ! j)))
                 = Values (embeddings res ! j))
              \<and> errors (stats res) = [] \<and> c' = c + length chunks)"
proof -
  from generateEmbeddings_runs [OF assms, of fetch t0 t1 chunks c] obtain res c' where
    gen: "generateEmbeddings fetch key t0 t1 chunks pk c = Inr (res, c')"
    and len: "length (embeddings res) = length chunks"
    and pos: "\<forall>j < length chunks.
                position_ok fetch key provider chunks c c' (embeddings res) (errors (stats res)) j"
    by blast
  have answered: "(\<forall>j < length chunks.
            \<exists>v. fetch (c + j) (gemini_request_for key provider (content (chunks ! j))) = Values v)
          \<longrightarrow> (\<forall>j < length chunks.
                 fetch (c + j) (gemini_request_for key provider (content (chunks ! j)))
                 = Values (embeddings res ! j))
              \<and> errors (stats res) = [] \<and> c' = c + length chunks"
  proof
    assume "\<forall>j < length chunks.
            \<exists>v. fetch (c + j) (gemini_request_for key provider (content (chunks ! j))) = Values v"
    from generateEmbeddings_answered [OF assms this, of t0 t1] gen
    show "(\<forall>j < length chunks.
                 fetch (c + j) (gemini_request_for key provider (content (chunks ! j)))
                 = Values (embeddings res ! j))
              \<and> errors (stats res) = [] \<and> c' = c + length chunks"
      by auto
  qed
  from gen len pos [unfolded position_ok_def] answered show ?thesis
    by blast
qed

theorem generateEmbeddings_aligned_witness:
  "isProviderConfigured testApiKey (str ''gemini-embedding-004'') = Inr True
   \<and> EMBEDDING_PROVIDERS (str ''gemini-embedding-004'') = Some geminiProvider
   \<and> (\<exists>res c'. generateEmbeddings fetch_echo testApiKey 0 5 mockChunks
                    (str ''gemini-embedding-004'') 0 = Inr (res, c')
          \<and> embeddings res = [[21, 0], [22, 1], [21, 2]]
          \<and> errors (stats res) = [] \<and> c' = 3)
   \<and> (\<exists>res c'. generateEmbeddings fetch_failing_second testApiKey 0 5 mockChunks
                    (str ''gemini-embedding-004'') 0 = Inr (res, c')
          \<and> length (embeddings res) = 3
          \<and> embeddings res ! 1 = replicate 768 0)"
proof -
  from generateEmbeddings_aligned [OF configured_test provider_test, of fetch_echo 0 5 mockChunks 0]
  obtain res c' where
    gen: "generateEmbeddings fetch_echo testApiKey 0 5 mockChunks (str ''gemini-embedding-004'') 0
          = Inr (res, c')"
    and len: "length (embeddings res) = length mockChunks"
    and ans: "(\<forall>j < length mockChunks.
            \<exists>v. fetch_echo (0 + j)
                   (gemini_request_for testApiKey geminiProvider (content (mockChunks ! j))) = Values v)
          \<longrightarrow> (\<forall>j < length mockChunks.
                 fetch_echo (0 + j)
                   (gemini_request_for testApiKey geminiProvider (content (mockChunks ! j)))
                 = Values (embeddings res ! j))
              \<and> errors (stats res) = [] \<and> c' = 0 + length mockChunks"
    by blast
  from ans fetch_echo_answers
  have vals: "\<forall>j < length mockChunks.
                 fetch_echo (0 + j)
                   (gemini_request_for testApiKey geminiProvider (content (mockChunks ! j)))
                 = Values (embeddings res ! j)"
    and noerr: "errors (stats res) = []" and calls: "c' = 0 + length mockChunks"
    by blast+
  have "(0 :: nat) < length mockChunks" "(1 :: nat) < length mockChunks"
    "(2 :: nat) < length mockChunks"
    by (simp_all add: mockChunks_length)
  with vals have
    "fetch_echo (0 + 0) (gemini_request_for testApiKey geminiProvider (content (mockChunks ! 0)))
     = Values (embeddings res ! 0)"
    "fetch_echo (0 + 1) (gemini_request_for testApiKey geminiProvider (content (mockChunks ! 1)))
     = Values (embeddings res ! 1)"
    "fetch_echo (0 + 2) (gemini_request_for testApiKey geminiProvider (content (mockChunks ! 2)))
     = Values (embeddings res ! 2)"
    by blast+
  then have "embeddings res ! 0 = [21, 0]" "embeddings res ! 1 = [22, 1]"
    "embeddings res ! 2 = [21, 2]"
    unfolding fetch_echo_mock by simp_all
  with list_of_three [of "embeddings res"] len
  have "embeddings res = [[21, 0], [22, 1], [21, 2]]"
    by (simp add: mockChunks_length)
  with gen noerr calls have first:
    "\<exists>res c'. generateEmbeddings fetch_echo testApiKey 0 5 mockChunks
                    (str ''gemini-embedding-004'') 0 = Inr (res, c')
          \<and> embeddings res = [[21, 0], [22, 1], [21, 2]]
          \<and> errors (stats res) = [] \<and> c' = 3"
    by (simp add: mockChunks_length)
  from generateEmbeddings_aligned [OF configured_test provider_test,
      of fetch_failing_second 0 5 mockChunks 0]
  obtain res2 c2 where
    gen2: "generateEmbeddings fetch_failing_second testApiKey 0 5 mockChunks
             (str ''gemini-embedding-004'') 0 = Inr (res2, c2)"
    and len2: "length (embeddings res2) = length mockChunks"
    and pos2: "\<forall>j < length mockChunks.
           (\<exists>k. 0 \<le> k \<and> k < c2
                \<and> fetch_failing_second k
                     (gemini_request_for testApiKey geminiProvider (content (mockChunks ! j)))
                    = Values (embeddings res2 ! j))
           \<or> (embeddings res2 ! j = replicate (dimensions geminiProvider) 0
              \<and> (\<exists>m k e. m < length mockChunks \<and> m div batchSize = j div batchSize \<and> 0 \<le> k \<and> k < c2
                     \<and> embedding_of_response
                           (fetch_failing_second k
                              (gemini_request_for testApiKey geminiProvider (content (mockChunks ! m))))
                         = Inl e
                     \<and> str ''Erreur batch '' @ show_nat (j div batchSize + 1) @ str '': '' @ render e
                         \<in> set (errors (stats res2))))"
    by blast
  have "(1 :: nat) < length mockChunks"
    by (simp add: mockChunks_length)
  from pos2 [rule_format, OF this]
  have "embeddings res2 ! 1 = replicate (dimensions geminiProvider) 0"
    unfolding fetch_failing_second_refuses by simp
  with gen2 len2 have second:
    "\<exists>res c'. generateEmbeddings fetch_failing_second testApiKey 0 5 mockChunks
                    (str ''gemini-embedding-004'') 0 = Inr (res, c')
          \<and> length (embeddings res) = 3
          \<and> embeddings res ! 1 = replicate 768 0"
    by (simp add: mockChunks_length geminiProvider_def)
  from configured_test provider_test first second show ?thesis
    by blast
qed


subsection \<open>A failing request\<close>

lemma eval_failing_second:
  "generateEmbeddings fetch_failing_second testApiKey 0 5 mockChunks (str ''gemini-embedding-004'') 0
   = Inr (\<lparr>embeddings = [replicate 768 0, replicate 768 0, replicate 768 0],
           stats = \<lparr>total_chunks = 3, total_embeddings = 3, total_tokens = 0,
                    processing_time_ms = 5, cost_estimate = 0,
                    errors = [str ''Erreur batch 1: Error: API Gemini: 400 - Bad Request'']\<rparr>\<rparr>, 2)"
  apply (simp add: generateEmbeddings_def configured_test provider_test)
  apply (simp add: generateEmbeddings_loop.simps mockChunks_def batchSize_def slice_def generateBatch_def geminiProvider_def
      fetch_failing_second_def gemini_request_for_def mockChunk_def)
  apply (simp add: str_def show_nat.simps)
  done


lemma eval_rejecting:
  "generateEmbeddings fetch_rejecting testApiKey 0 5
     [mockChunk (str ''Premier chunk de test'') 0 10] (str ''gemini-embedding-004'') 0
   = Inr (\<lparr>embeddings = [replicate 768 0],
           stats = \<lparr>total_chunks = 1, total_embeddings = 1, total_tokens = 0,
                    processing_time_ms = 5, cost_estimate = 0,
                    errors = [str ''Erreur batch 1: Error: Network error'']\<rparr>\<rparr>, 1)"
  apply (simp add: generateEmbeddings_def configured_test provider_test)
  apply (simp add: generateEmbeddings_loop.simps batchSize_def slice_def generateBatch_def
      geminiProvider_def fetch_rejecting_def mockChunk_def)
  apply (simp add: str_def show_nat.simps)
  done


text \<open>
  Claim C2, as stated, fails on the code: with three chunks and a provider that fails on
  the second only, the first position holds the zero vector although the provider
  answered the first request with another vector (and the third chunk is never sent).
\<close>

theorem generateEmbeddings_single_failure_counterexample:
  "generateEmbeddings fetch_failing_second testApiKey 0 5 mockChunks (str ''gemini-embedding-004'') 0
   = Inr (\<lparr>embeddings = [replicate 768 0, replicate 768 0, replicate 768 0],
           stats = \<lparr>total_chunks = 3, total_embeddings = 3, total_tokens = 0,
                    processing_time_ms = 5, cost_estimate = 0,
                    errors = [str ''Erreur batch 1: Error: API Gemini: 400 - Bad Request'']\<rparr>\<rparr>, 2)
   \<and> fetch_failing_second 0
         (gemini_request_for testApiKey geminiProvider (content (mockChunks ! 0)))
       = Values (replicate 768 (1 / 2))
   \<and> replicate 768 (1 / 2) \<noteq> replicate 768 (0 :: real)"
  using eval_failing_second
  by (simp add: fetch_failing_second_def gemini_request_for_def mockChunks_def mockChunk_def str_def)

text \<open>
  Claim C2, amended. A failure is handled per batch of up to 100 chunks, not per item.
  The requests of a batch are sent in the order of its chunks, and the first one that
  fails ends the batch: the later chunks of the batch are not requested, the vectors
  already returned for the batch are dropped, every position of the batch gets the zero
  vector of the provider's dimension, and one error string with the ordinal of the batch
  and the exception of the request is recorded. A batch all of whose requests are
  answered contributes the vectors of the answers, in order, and no error. The next batch
  starts with the call after the last one made. This is what \<open>embedding_runs\<close> describes,
  from the answers of the provider alone; the run returns its vectors and its errors, and
  has made its number of calls. In particular, in a run of one batch where the request
  for chunk \<open>j\<close> is the first to fail, all the vectors are zero vectors, there is one
  error, for batch 1, and \<open>j + 1\<close> calls were made.
\<close>

theorem generateEmbeddings_batch_placeholders:
  assumes "isProviderConfigured key pk = Inr True"
    and "EMBEDDING_PROVIDERS pk = Some provider"
  shows "\<exists>res c'. generateEmbeddings fetch key t0 t1 chunks pk c = Inr (res, c')
     \<and> embeddings res
         = concat (map (batch_vectors provider) (embedding_runs fetch key provider chunks c))
     \<and> errors (stats res)
         = concat (map batch_errors (enumerate 1 (embedding_runs fetch key provider chunks c)))
     \<and> c' = c + sum_list (map run_sent (embedding_runs fetch key provider chunks c))
     \<and> (\<forall>j e. length chunks \<le> batchSize \<and> j < length chunks
               \<and> (\<forall>m < j. \<exists>v. fetch (c + m) (gemini_request_for key provider (content (chunks ! m)))
                                  = Values v)
               \<and> embedding_of_response
                     (fetch (c + j) (gemini_request_for key provider (content (chunks ! j)))) = Inl e
             \<longrightarrow> embeddings res = replicate (length chunks) (replicate (dimensions provider) 0)
                 \<and> errors (stats res) = [str ''Erreur batch 1: '' @ render e]
                 \<and> c' = c + j + 1)"
proof -
  from generateEmbeddings_runs [OF assms, of fetch t0 t1 chunks c] obtain res c' where
    gen: "generateEmbeddings fetch key t0 t1 chunks pk c = Inr (res, c')"
    and runs: "embeddings res
         = concat (map (batch_vectors provider) (embedding_runs fetch key provider chunks c))"
      "errors (stats res)
         = concat (map batch_errors (enumerate 1 (embedding_runs fetch key provider chunks c)))"
      "c' = c + sum_list (map run_sent (embedding_runs fetch key provider chunks c))"
    by blast
  have one: "\<forall>j e. length chunks \<le> batchSize \<and> j < length chunks
               \<and> (\<forall>m < j. \<exists>v. fetch (c + m) (gemini_request_for key provider (content (chunks ! m)))
                                  = Values v)
               \<and> embedding_of_response
                     (fetch (c + j) (gemini_request_for key provider (content (chunks ! j)))) = Inl e
             \<longrightarrow> embeddings res = replicate (length chunks) (replicate (dimensions provider) 0)
                 \<and> errors (stats res) = [str ''Erreur batch 1: '' @ render e]
                 \<and> c' = c + j + 1"
  proof (intro allI impI, elim conjE)
    fix j e
    assume small: "length chunks \<le> batchSize" and j: "j < length chunks"
      and before: "\<forall>m < j. \<exists>v. fetch (c + m) (gemini_request_for key provider (content (chunks ! m)))
                                  = Values v"
      and fail: "embedding_of_response
                     (fetch (c + j) (gemini_request_for key provider (content (chunks ! j)))) = Inl e"
    from j have "chunks \<noteq> []" by auto
    from generateEmbeddings_failing_batch [OF assms this small j before fail, of t0 t1] gen
    show "embeddings res = replicate (length chunks) (replicate (dimensions provider) 0)
                 \<and> errors (stats res) = [str ''Erreur batch 1: '' @ render e]
                 \<and> c' = c + j + 1"
      by auto
  qed
  from gen runs one show ?thesis
    by blast
qed

theorem generateEmbeddings_batch_placeholders_witness:
  "isProviderConfigured testApiKey (str ''gemini-embedding-004'') = Inr True
   \<and> EMBEDDING_PROVIDERS (str ''gemini-embedding-004'') = Some geminiProvider
   \<and> (\<exists>res c'. generateEmbeddings fetch_failing_second testApiKey 0 5 mockChunks
                    (str ''gemini-embedding-004'') 0 = Inr (res, c')
          \<and> embeddings res = [replicate 768 0, replicate 768 0, replicate 768 0]
          \<and> errors (stats res) = [str ''Erreur batch 1: Error: API Gemini: 400 - Bad Request'']
          \<and> c' = 2)
   \<and> (\<exists>res c'. generateEmbeddings fetch_failing_second testApiKey 0 5 twoBatches
                    (str ''gemini-embedding-004'') 0 = Inr (res, c')
          \<and> embeddings res = replicate 100 (replicate 768 0) @ [replicate 768 (1 / 2)]
          \<and> errors (stats res) = [str ''Erreur batch 1: Error: API Gemini: 400 - Bad Request'']
          \<and> c' = 2)"
proof -
  from generateEmbeddings_batch_placeholders [OF configured_test provider_test,
      of fetch_failing_second 0 5 mockChunks 0]
  obtain res c' where
    gen: "generateEmbeddings fetch_failing_second testApiKey 0 5 mockChunks
            (str ''gemini-embedding-004'') 0 = Inr (res, c')"
    and one: "\<forall>j e. length mockChunks \<le> batchSize \<and> j < length mockChunks
               \<and> (\<forall>m < j. \<exists>v. fetch_failing_second (0 + m)
                         (gemini_request_for testApiKey geminiProvider (content (mockChunks ! m)))
                                  = Values v)
               \<and> embedding_of_response
                     (fetch_failing_second (0 + j)
                        (gemini_request_for testApiKey geminiProvider (content (mockChunks ! j))))
                   = Inl e
             \<longrightarrow> embeddings res = replicate (length mockChunks) (replicate (dimensions geminiProvider) 0)
                 \<and> errors (stats res) = [str ''Erreur batch 1: '' @ render e]
                 \<and> c' = 0 + j + 1"
    by blast
  have "length mockChunks \<le> batchSize" "(1 :: nat) < length mockChunks"
    by (simp_all add: mockChunks_length batchSize_def)
  with one [rule_format, of 1 "Error (str ''API Gemini: 400 - Bad Request'')"]
    fetch_failing_second_first fetch_failing_second_second
  have "embeddings res = replicate (length mockChunks) (replicate (dimensions geminiProvider) 0)
        \<and> errors (stats res)
            = [str ''Erreur batch 1: '' @ render (Error (str ''API Gemini: 400 - Bad Request''))]
        \<and> c' = 0 + 1 + 1"
    by blast
  then have "embeddings res = [replicate 768 0, replicate 768 0, replicate 768 0]"
    "errors (stats res) = [str ''Erreur batch 1: Error: API Gemini: 400 - Bad Request'']"
    "c' = 2"
    by (simp_all add: mockChunks_def geminiProvider_def str_def)
  with gen have first:
    "\<exists>res c'. generateEmbeddings fetch_failing_second testApiKey 0 5 mockChunks
                    (str ''gemini-embedding-004'') 0 = Inr (res, c')
          \<and> embeddings res = [replicate 768 0, replicate 768 0, replicate 768 0]
          \<and> errors (stats res) = [str ''Erreur batch 1: Error: API Gemini: 400 - Bad Request'']
          \<and> c' = 2"
    by blast
  from generateEmbeddings_batch_placeholders [OF configured_test provider_test,
      of fetch_failing_second 0 5 twoBatches 0]
  obtain res2 c2 where
    gen2: "generateEmbeddings fetch_failing_second testApiKey 0 5 twoBatches
            (str ''gemini-embedding-004'') 0 = Inr (res2, c2)"
    and runs: "embeddings res2
         = concat (map (batch_vectors geminiProvider)
             (embedding_runs fetch_failing_second testApiKey geminiProvider twoBatches 0))"
      "errors (stats res2)
         = concat (map batch_errors (enumerate 1
             (embedding_runs fetch_failing_second testApiKey geminiProvider twoBatches 0)))"
      "c2 = 0 + sum_list (map run_sent
             (embedding_runs fetch_failing_second testApiKey geminiProvider twoBatches 0))"
    by blast
  from runs have "embeddings res2 = replicate 100 (replicate 768 0) @ [replicate 768 (1 / 2)]"
    "errors (stats res2) = [str ''Erreur batch 1: Error: API Gemini: 400 - Bad Request'']"
    "c2 = 2"
    unfolding run_two_batches
    by (simp_all add: batch_vectors_def batch_errors_def enumerate_simps geminiProvider_def
        str_def show_nat.simps)
  with gen2 have second:
    "\<exists>res c'. generateEmbeddings fetch_failing_second testApiKey 0 5 twoBatches
                    (str ''gemini-embedding-004'') 0 = Inr (res, c')
          \<and> embeddings res = replicate 100 (replicate 768 0) @ [replicate 768 (1 / 2)]
          \<and> errors (stats res) = [str ''Erreur batch 1: Error: API Gemini: 400 - Bad Request'']
          \<and> c' = 2"
    by blast
  from configured_test provider_test first second show ?thesis
    by blast
qed


subsection \<open>The cost estimate\<close>

lemma request_runs_no_error:
  "concat (map batch_errors (enumerate k (request_runs fetch key provider bs c))) = []
   \<Longrightarrow> sum_list (map batch_tokens (request_runs fetch key provider bs c))
       = sum_list (map (\<lambda>chunk. tokens (metadata chunk)) (concat bs))"
proof (induction bs arbitrary: k c)
  case Nil
  then show ?case by simp
next
  case (Cons b bs)
  let ?run = "request_run fetch key provider b c"
  from Cons.prems obtain vs where vs: "run_outcome ?run = Inr vs"
    by (cases "run_outcome ?run") (auto simp: enumerate_simps batch_errors_def)
  from Cons.prems
  have "concat (map batch_errors
          (enumerate (Suc k) (request_runs fetch key provider bs (c + run_sent ?run)))) = []"
    by (simp add: enumerate_simps)
  from Cons.IH [OF this] vs show ?case
    by (simp add: batch_tokens_def)
qed

text \<open>
  Claim C4, as stated, fails on the code: for one chunk of 10 tokens whose request fails
  the cost estimate is 0, not \<open>(10 / 1000) * costPer1KTokens\<close>.
\<close>

theorem generateEmbeddings_cost_counterexample:
  "generateEmbeddings fetch_rejecting testApiKey 0 5
     [mockChunk (str ''Premier chunk de test'') 0 10] (str ''gemini-embedding-004'') 0
   = Inr (\<lparr>embeddings = [replicate 768 0],
           stats = \<lparr>total_chunks = 1, total_embeddings = 1, total_tokens = 0,
                    processing_time_ms = 5, cost_estimate = 0,
                    errors = [str ''Erreur batch 1: Error: Network error'']\<rparr>\<rparr>, 1)
   \<and> (real (tokens (metadata (mockChunk (str ''Premier chunk de test'') 0 10))) / 1000)
       * costPer1KTokens geminiProvider \<noteq> 0"
  using eval_rejecting by (simp add: mockChunk_def geminiProvider_def)

text \<open>
  Claim C4, amended. The cost estimate is \<open>(total_tokens / 1000) * costPer1KTokens\<close>,
  the quotient and the product of the source, where \<open>total_tokens\<close> sums the token
  estimates of the chunks of the batches all of whose requests were answered; the chunks
  of a batch in which a request failed are not counted, whether their own request was
  answered, failed or was never sent (\<open>batch_tokens\<close> over \<open>embedding_runs\<close>). When the
  provider answers every request, and also whenever no error is recorded, that is the sum
  over all the input chunks; in a run of one batch in which a request fails, the total and
  the cost are 0.
\<close>

theorem generateEmbeddings_cost_estimate:
  assumes "isProviderConfigured key pk = Inr True"
    and "EMBEDDING_PROVIDERS pk = Some provider"
  shows "\<exists>res c'. generateEmbeddings fetch key t0 t1 chunks pk c = Inr (res, c')
     \<and> total_tokens (stats res)
         = sum_list (map batch_tokens (embedding_runs fetch key provider chunks c))
     \<and> cost_estimate (stats res)
         = (real (sum_list (map batch_tokens (embedding_runs fetch key provider chunks c))) / 1000)
           * costPer1KTokens provider
     \<and> ((\<forall>j < length chunks.
            \<exists>v. fetch (c + j) (gemini_request_for key provider (content (chunks ! j))) = Values v)
          \<longrightarrow> total_tokens (stats res) = sum_list (map (\<lambda>chunk. tokens (metadata chunk)) chunks))
     \<and> (\<forall>j e. length chunks \<le> batchSize \<and> j < length chunks
               \<and> (\<forall>m < j. \<exists>v. fetch (c + m) (gemini_request_for key provider (content (chunks ! m)))
                                  = Values v)
               \<and> embedding_of_response
                     (fetch (c + j) (gemini_request_for key provider (content (chunks ! j)))) = Inl e
             \<longrightarrow> total_tokens (stats res) = 0 \<and> cost_estimate (stats res) = 0)
     \<and> (errors (stats res) = []
          \<longrightarrow> total_tokens (stats res) = sum_list (map (\<lambda>chunk. tokens (metadata chunk)) chunks))"
proof -
  from generateEmbeddings_runs [OF assms, of fetch t0 t1 chunks c] obtain res c' where
    gen: "generateEmbeddings fetch key t0 t1 chunks pk c = Inr (res, c')"
    and err: "errors (stats res)
              = concat (map batch_errors (enumerate 1 (embedding_runs fetch key provider chunks c)))"
    and tok: "total_tokens (stats res)
              = sum_list (map batch_tokens (embedding_runs fetch key provider chunks c))"
    and cost: "cost_estimate (stats res)
              = (real (total_tokens (stats res)) / 1000) * costPer1KTokens provider"
    by blast
  have cost': "cost_estimate (stats res)
         = (real (sum_list (map batch_tokens (embedding_runs fetch key provider chunks c))) / 1000)
           * costPer1KTokens provider"
    using cost unfolding tok .
  have answered: "(\<forall>j < length chunks.
            \<exists>v. fetch (c + j) (gemini_request_for key provider (content (chunks ! j))) = Values v)
          \<longrightarrow> total_tokens (stats res) = sum_list (map (\<lambda>chunk. tokens (metadata chunk)) chunks)"
  proof
    assume "\<forall>j < length chunks.
            \<exists>v. fetch (c + j) (gemini_request_for key provider (content (chunks ! j))) = Values v"
    from generateEmbeddings_answered [OF assms this, of t0 t1] gen
    show "total_tokens (stats res) = sum_list (map (\<lambda>chunk. tokens (metadata chunk)) chunks)"
      by auto
  qed
  have one: "\<forall>j e. length chunks \<le> batchSize \<and> j < length chunks
               \<and> (\<forall>m < j. \<exists>v. fetch (c + m) (gemini_request_for key provider (content (chunks ! m)))
                                  = Values v)
               \<and> embedding_of_response
                     (fetch (c + j) (gemini_request_for key provider (content (chunks ! j)))) = Inl e
             \<longrightarrow> total_tokens (stats res) = 0 \<and> cost_estimate (stats res) = 0"
  proof (intro allI impI, elim conjE)
    fix j e
    assume small: "length chunks \<le> batchSize" and j: "j < length chunks"
      and before: "\<forall>m < j. \<exists>v. fetch (c + m) (gemini_request_for key provider (content (chunks ! m)))
                                  = Values v"
      and fail: "embedding_of_response
                     (fetch (c + j) (gemini_request_for key provider (content (chunks ! j)))) = Inl e"
    from j have "chunks \<noteq> []" by auto
    from generateEmbeddings_failing_batch [OF assms this small j before fail, of t0 t1] gen
    have "total_tokens (stats res) = 0"
      by auto
    with cost show "total_tokens (stats res) = 0 \<and> cost_estimate (stats res) = 0"
      by simp
  qed
  have noerr: "errors (stats res) = []
        \<longrightarrow> total_tokens (stats res) = sum_list (map (\<lambda>chunk. tokens (metadata chunk)) chunks)"
    using request_runs_no_error [of 1 fetch key provider "batches_of chunks" c] err tok
    by (simp add: embedding_runs_def concat_batches_of)
  from gen tok cost' answered one noerr show ?thesis
    by blast
qed

theorem generateEmbeddings_cost_estimate_witness:
  "isProviderConfigured testApiKey (str ''gemini-embedding-004'') = Inr True
   \<and> EMBEDDING_PROVIDERS (str ''gemini-embedding-004'') = Some geminiProvider
   \<and> (\<exists>res c'. generateEmbeddings fetch_failing_second testApiKey 0 5 twoBatches
                    (str ''gemini-embedding-004'') 0 = Inr (res, c')
          \<and> total_tokens (stats res) = 10
          \<and> cost_estimate (stats res) = (10 / 1000) * (1 / 100000))
   \<and> sum_list (map (\<lambda>chunk. tokens (metadata chunk)) twoBatches) = 1012
   \<and> (\<exists>res c'. generateEmbeddings fetch_echo testApiKey 0 5 mockChunks
                    (str ''gemini-embedding-004'') 0 = Inr (res, c')
          \<and> total_tokens (stats res) = 29
          \<and> cost_estimate (stats res) = (29 / 1000) * (1 / 100000))"
proof -
  from generateEmbeddings_cost_estimate [OF configured_test provider_test,
      of fetch_failing_second 0 5 twoBatches 0]
  obtain res c' where
    gen: "generateEmbeddings fetch_failing_second testApiKey 0 5 twoBatches
            (str ''gemini-embedding-004'') 0 = Inr (res, c')"
    and tok: "total_tokens (stats res)
         = sum_list (map batch_tokens
             (embedding_runs fetch_failing_second testApiKey geminiProvider twoBatches 0))"
    and cost: "cost_estimate (stats res)
         = (real (sum_list (map batch_tokens
              (embedding_runs fetch_failing_second testApiKey geminiProvider twoBatches 0))) / 1000)
           * costPer1KTokens geminiProvider"
    by blast
  have sum: "sum_list (map batch_tokens
             (embedding_runs fetch_failing_second testApiKey geminiProvider twoBatches 0)) = 10"
    unfolding run_two_batches by (simp add: batch_tokens_def mockChunk_def)
  from tok cost have "total_tokens (stats res) = 10"
    "cost_estimate (stats res) = (10 / 1000) * (1 / 100000)"
    unfolding sum by (simp_all add: geminiProvider_def)
  with gen have first:
    "\<exists>res c'. generateEmbeddings fetch_failing_second testApiKey 0 5 twoBatches
                    (str ''gemini-embedding-004'') 0 = Inr (res, c')
          \<and> total_tokens (stats res) = 10
          \<and> cost_estimate (stats res) = (10 / 1000) * (1 / 100000)"
    by blast
  have all: "sum_list (map (\<lambda>chunk. tokens (metadata chunk)) twoBatches) = 1012"
    by (simp add: twoBatches_def mockChunk_def sum_list_replicate)
  from generateEmbeddings_cost_estimate [OF configured_test provider_test,
      of fetch_echo 0 5 mockChunks 0]
  obtain res2 c2 where
    gen2: "generateEmbeddings fetch_echo testApiKey 0 5 mockChunks
            (str ''gemini-embedding-004'') 0 = Inr (res2, c2)"
    and ans: "(\<forall>j < length mockChunks.
            \<exists>v. fetch_echo (0 + j)
                   (gemini_request_for testApiKey geminiProvider (content (mockChunks ! j))) = Values v)
          \<longrightarrow> total_tokens (stats res2)
              = sum_list (map (\<lambda>chunk. tokens (metadata chunk)) mockChunks)"
    and tok2: "total_tokens (stats res2)
         = sum_list (map batch_tokens
             (embedding_runs fetch_echo testApiKey geminiProvider mockChunks 0))"
    and cost2: "cost_estimate (stats res2)
         = (real (sum_list (map batch_tokens
              (embedding_runs fetch_echo testApiKey geminiProvider mockChunks 0))) / 1000)
           * costPer1KTokens geminiProvider"
    by blast
  from ans fetch_echo_answers
  have t2: "total_tokens (stats res2) = sum_list (map (\<lambda>chunk. tokens (metadata chunk)) mockChunks)"
    by blast
  have "sum_list (map (\<lambda>chunk. tokens (metadata chunk)) mockChunks) = 29"
    by (simp add: mockChunks_def mockChunk_def)
  with t2 have t29: "total_tokens (stats res2) = 29"
    by simp
  from cost2 have "cost_estimate (stats res2) = (29 / 1000) * (1 / 100000)"
    unfolding tok2 [symmetric] t29 by (simp add: geminiProvider_def)
  with gen2 t29 have second:
    "\<exists>res c'. generateEmbeddings fetch_echo testApiKey 0 5 mockChunks
                    (str ''gemini-embedding-004'') 0 = Inr (res, c')
          \<and> total_tokens (stats res) = 29
          \<and> cost_estimate (stats res) = (29 / 1000) * (1 / 100000)"
    by blast
  from configured_test provider_test first all second show ?thesis
    by blast
qed

subsection \<open>Cosine similarity\<close>

lemma cosine_sums_swap:
  "foldl (cosineSimilarity_step a b) (d0, x0, y0) [0..<n] = (d, x, y)
   \<Longrightarrow> foldl (cosineSimilarity_step b a) (d0, y0, x0) [0..<n] = (d, y, x)"
proof (induction n arbitrary: d x y)
  case 0
  then show ?case by simp
next
  case (Suc n)
  obtain d1 x1 y1 where prev:
    "foldl (cosineSimilarity_step a b) (d0, x0, y0) [0..<n] = (d1, x1, y1)"
    using prod_cases3 by blast
  from Suc.IH [OF prev] Suc.prems prev show ?case
    by (simp add: cosineSimilarity_step_def mult.commute)
qed

text \<open>
  Claim C10. \<^verbatim>\<open>cosineSimilarity\<close> is commutative: for two vectors of the same length
  both calls return, and they return the same number. The two calls add the same products
  in the same order, with the two norms exchanged; the proof rests on the commutativity of
  the product alone.
\<close>

theorem cosineSimilarity_commutative:
  assumes "length a = length b"
  shows "\<exists>r. cosineSimilarity a b = Inr r \<and> cosineSimilarity b a = Inr r"
proof -
  obtain d x y where ab:
    "foldl (cosineSimilarity_step a b) (0, 0, 0) [0..<length a] = (d, x, y)"
    using prod_cases3 by blast
  from cosine_sums_swap [OF ab] assms have ba:
    "foldl (cosineSimilarity_step b a) (0, 0, 0) [0..<length b] = (d, y, x)"
    by simp
  have "cosineSimilarity a b
        = Inr (if sqrt x = 0 \<or> sqrt y = 0 then 0 else d / (sqrt x * sqrt y))"
    using assms ab by (simp add: cosineSimilarity_def)
  moreover have "cosineSimilarity b a
        = Inr (if sqrt x = 0 \<or> sqrt y = 0 then 0 else d / (sqrt x * sqrt y))"
    using assms ba by (auto simp add: cosineSimilarity_def mult.commute)
  ultimately show ?thesis by simp
qed

theorem cosineSimilarity_commutative_witness:
  "length [1, 2 :: real] = length [2, 1 :: real]
   \<and> (\<exists>r. cosineSimilarity [1, 2] [2, 1] = Inr r \<and> cosineSimilarity [2, 1] [1, 2] = Inr r)"
  using cosineSimilarity_commutative [of "[1, 2]" "[2, 1]"] by simp

section \<open>Properties of the RAG service\<close>

subsection \<open>The insertion loop of indexDataset\<close>

lemma insert_step_count:
  "i < n \<Longrightarrow> Suc ((n - (i + 50) + 49) div 50) = (n - i + 49) div (50::nat)"
proof (cases "i + 50 \<le> n")
  case True
  then obtain k where "n = i + 50 + k"
    by (auto simp: le_iff_add)
  then show ?thesis
    by simp
next
  case False
  assume "i < n"
  with False have "50 * 1 \<le> n - i + 49" "n - i + 49 < 50 * Suc 1"
    by simp_all
  then have "(n - i + 49) div 50 = 1"
    by (rule div_nat_eqI)
  with False show ?thesis
    by simp
qed

lemma indexDataset_loop_grows:
  "indexDataset_loop insert_error records i (n0, E, w) = (n', E', w')
   \<Longrightarrow> (\<exists>Ea. E' = E @ Ea)
     \<and> (\<exists>Ta. embeddings_table w' = embeddings_table w @ Ta \<and> n' = n0 + length Ta
              \<and> length Ta \<le> length records - i)
     \<and> insert_calls w' = insert_calls w + (length records - i + 49) div 50
     \<and> fetch_calls w' = fetch_calls w"
proof (induction insert_error records i "(n0, E, w)" arbitrary: n0 E w
       rule: indexDataset_loop.induct)
  case (1 insert_error records i)
  show ?case
  proof (cases "i < length records")
    case False
    with "1.prems" show ?thesis
      by (simp add: indexDataset_loop.simps)
  next
    case True
    let ?batch = "slice records i (i + insertBatchSize)"
    have len: "length ?batch \<le> length records - i"
      by (simp add: slice_def)
    have len2: "length ?batch + (length records - (i + insertBatchSize)) \<le> length records - i"
      using True by (simp add: slice_def insertBatchSize_def)
    have count: "Suc ((length records - (i + insertBatchSize) + 49) div 50)
                 = (length records - i + 49) div 50"
      using insert_step_count [OF True] by (simp add: insertBatchSize_def)
    show ?thesis
    proof (cases "insert_error (insert_calls w) ?batch")
      case (Some message)
      have step: "indexDataset_loop insert_error records (i + insertBatchSize)
                (n0, E @ [str ''Erreur insertion batch '' @ show_nat (i div insertBatchSize + 1)
                               @ str '': '' @ message],
                 w\<lparr>insert_calls := Suc (insert_calls w)\<rparr>) = (n', E', w')"
        using "1.prems" True Some by (subst (asm) indexDataset_loop.simps) simp
      from "1.hyps"(2) [OF refl refl True refl Some step]
      obtain Ea Ta where
        "E' = (E @ [str ''Erreur insertion batch '' @ show_nat (i div insertBatchSize + 1)
                               @ str '': '' @ message]) @ Ea"
        "embeddings_table w' = embeddings_table w @ Ta" "n' = n0 + length Ta"
        "length Ta \<le> length records - (i + insertBatchSize)"
        "insert_calls w' = Suc (insert_calls w) + (length records - (i + insertBatchSize) + 49) div 50"
        "fetch_calls w' = fetch_calls w"
        by auto
      with count show ?thesis by auto
    next
      case None
      have step: "indexDataset_loop insert_error records (i + insertBatchSize)
                (n0 + length ?batch, E,
                 w\<lparr>insert_calls := Suc (insert_calls w),
                   embeddings_table := embeddings_table w @ ?batch\<rparr>) = (n', E', w')"
        using "1.prems" True None by (subst (asm) indexDataset_loop.simps) (simp add: Let_def)
      from "1.hyps"(1) [OF refl refl True refl None step]
      obtain Ea Ta where *:
        "E' = E @ Ea"
        "embeddings_table w' = (embeddings_table w @ ?batch) @ Ta"
        "n' = (n0 + length ?batch) + length Ta"
        "length Ta \<le> length records - (i + insertBatchSize)"
        "insert_calls w' = Suc (insert_calls w) + (length records - (i + insertBatchSize) + 49) div 50"
        "fetch_calls w' = fetch_calls w"
        by auto
      have "embeddings_table w' = embeddings_table w @ (?batch @ Ta)"
        "n' = n0 + length (?batch @ Ta)"
        "length (?batch @ Ta) \<le> length records - i"
        using * len2 by auto
      with * count show ?thesis by (intro conjI exI [of _ "?batch @ Ta"] exI [of _ Ea]) auto
    qed
  qed
qed


lemma indexDataset_loop_batches:
  "indexDataset_loop insert_error records i (n0, E, w) = (n', E', w')
   \<Longrightarrow> i + insertBatchSize * m < length records
   \<Longrightarrow> (case insert_error (insert_calls w + m)
              (slice records (i + insertBatchSize * m) (i + insertBatchSize * m + insertBatchSize)) of
         Some message \<Rightarrow>
           str ''Erreur insertion batch '' @ show_nat ((i + insertBatchSize * m) div insertBatchSize + 1)
             @ str '': '' @ message \<in> set E'
       | None \<Rightarrow>
           set (slice records (i + insertBatchSize * m) (i + insertBatchSize * m + insertBatchSize))
             \<subseteq> set (embeddings_table w'))"
proof (induction insert_error records i "(n0, E, w)" arbitrary: n0 E w m
       rule: indexDataset_loop.induct)
  case (1 insert_error records i)
  from "1.prems"(2) have True: "i < length records"
    by simp
  let ?batch = "slice records i (i + insertBatchSize)"
  show ?case
  proof (cases "insert_error (insert_calls w) ?batch")
    case (Some message)
    let ?E1 = "E @ [str ''Erreur insertion batch '' @ show_nat (i div insertBatchSize + 1)
                               @ str '': '' @ message]"
    let ?w1 = "w\<lparr>insert_calls := Suc (insert_calls w)\<rparr>"
    have step: "indexDataset_loop insert_error records (i + insertBatchSize) (n0, ?E1, ?w1)
                = (n', E', w')"
      using "1.prems"(1) True Some by (subst (asm) indexDataset_loop.simps) (simp add: Let_def)
    show ?thesis
    proof (cases m)
      case 0
      from indexDataset_loop_grows [OF step] obtain Ea where "E' = ?E1 @ Ea"
        by blast
      with 0 Some show ?thesis by simp
    next
      case (Suc m')
      with "1.prems"(2) have "i + insertBatchSize + insertBatchSize * m' < length records"
        by simp
      from "1.hyps"(2) [OF refl refl True refl Some step this] Suc
      show ?thesis by (auto simp: add.assoc split: option.splits)
    qed
  next
    case None
    let ?w1 = "w\<lparr>insert_calls := Suc (insert_calls w),
                   embeddings_table := embeddings_table w @ ?batch\<rparr>"
    have step: "indexDataset_loop insert_error records (i + insertBatchSize)
                  (n0 + length ?batch, E, ?w1) = (n', E', w')"
      using "1.prems"(1) True None by (subst (asm) indexDataset_loop.simps) (simp add: Let_def)
    show ?thesis
    proof (cases m)
      case 0
      from indexDataset_loop_grows [OF step] obtain Ta where
        "embeddings_table w' = embeddings_table ?w1 @ Ta"
        by blast
      with 0 None show ?thesis by auto
    next
      case (Suc m')
      with "1.prems"(2) have "i + insertBatchSize + insertBatchSize * m' < length records"
        by simp
      from "1.hyps"(1) [OF refl refl True refl None step this] Suc
      show ?thesis by (auto simp: add.assoc split: option.splits)
    qed
  qed
qed

text \<open>
  Claim C6. A run of \<^verbatim>\<open>indexDataset\<close> that produces at least one chunk, with a configured
  provider, returns statistics; \<open>total_embeddings\<close> is the number of rows that the run
  added to the store, at most \<open>total_chunks\<close>; every batch of 50 rows is sent, whatever
  happened to the batches before it; and a batch that the store refuses leaves its error
  string in the statistics, while an accepted batch is in the store.
\<close>

theorem indexDataset_inserted_count:
  assumes "chunkContent fdiv parse stringify text fileType fileName (chunkingConfig config) = chunks"
    and "chunks \<noteq> []"
    and "isProviderConfigured key (embeddingProvider config) = Inr True"
  shows "\<exists>res c' st w'.
           generateEmbeddings fetch key t0 t1 chunks (embeddingProvider config) (fetch_calls w)
             = Inr (res, c')
         \<and> indexDataset fdiv parse stringify fetch insert_error key t0 t1 gemId datasetId text fileName
               fileType config w = Inr (st, w')
         \<and> total_chunks st = length chunks
         \<and> total_embeddings st = length (embeddings_table w') - length (embeddings_table w)
         \<and> total_embeddings st \<le> total_chunks st
         \<and> insert_calls w' = insert_calls w + (length chunks + 49) div 50
         \<and> (\<forall>k. insertBatchSize * k < length chunks \<longrightarrow>
               (case insert_error (insert_calls w + k)
                       (slice (embeddingRecords gemId datasetId chunks (embeddings res))
                          (insertBatchSize * k) (insertBatchSize * k + insertBatchSize)) of
                  Some message \<Rightarrow>
                    str ''Erreur insertion batch '' @ show_nat (k + 1) @ str '': '' @ message
                      \<in> set (errors st)
                | None \<Rightarrow>
                    set (slice (embeddingRecords gemId datasetId chunks (embeddings res))
                           (insertBatchSize * k) (insertBatchSize * k + insertBatchSize))
                      \<subseteq> set (embeddings_table w')))"
proof -
  from isProviderConfigured_True [OF assms(3)] obtain provider where
    prov: "EMBEDDING_PROVIDERS (embeddingProvider config) = Some provider"
    by blast
  from generateEmbeddings_runs [OF assms(3) prov, of fetch t0 t1 chunks "fetch_calls w"]
  obtain res c' where
    res: "generateEmbeddings fetch key t0 t1 chunks (embeddingProvider config) (fetch_calls w)
          = Inr (res, c')"
    and len: "length (embeddings res) = length chunks"
    and tc: "total_chunks (stats res) = length chunks"
    by blast
  let ?records = "embeddingRecords gemId datasetId chunks (embeddings res)"
  have lrec: "length ?records = length chunks"
    by (simp add: embeddingRecords_def)
  obtain n' E' w' where loop:
    "indexDataset_loop insert_error ?records 0 (0, errors (stats res), w\<lparr>fetch_calls := c'\<rparr>)
     = (n', E', w')"
    by (metis prod_cases3)
  define st where "st = (stats res)\<lparr>errors := E', total_embeddings := n'\<rparr>"
  have st: "errors st = E'" "total_embeddings st = n'" "total_chunks st = length chunks"
    using tc by (simp_all add: st_def)
  have idx: "indexDataset fdiv parse stringify fetch insert_error key t0 t1 gemId datasetId text fileName
               fileType config w = Inr (st, w')"
    using assms(1,2) res len loop by (simp add: indexDataset_def st_def)
  from indexDataset_loop_grows [OF loop] obtain Ta where grows:
    "embeddings_table w' = embeddings_table w @ Ta" "n' = length Ta" "length Ta \<le> length chunks"
    "insert_calls w' = insert_calls w + (length chunks + 49) div 50"
    by (auto simp: lrec)
  have batches: "\<forall>k. insertBatchSize * k < length chunks \<longrightarrow>
               (case insert_error (insert_calls w + k)
                       (slice ?records (insertBatchSize * k) (insertBatchSize * k + insertBatchSize)) of
                  Some message \<Rightarrow>
                    str ''Erreur insertion batch '' @ show_nat (k + 1) @ str '': '' @ message
                      \<in> set (errors st)
                | None \<Rightarrow>
                    set (slice ?records (insertBatchSize * k) (insertBatchSize * k + insertBatchSize))
                      \<subseteq> set (embeddings_table w'))"
  proof (intro allI impI)
    fix k
    assume "insertBatchSize * k < length chunks"
    then have "0 + insertBatchSize * k < length ?records"
      by (simp add: lrec)
    from indexDataset_loop_batches [OF loop this]
    show "case insert_error (insert_calls w + k)
                       (slice ?records (insertBatchSize * k) (insertBatchSize * k + insertBatchSize)) of
                  Some message \<Rightarrow>
                    str ''Erreur insertion batch '' @ show_nat (k + 1) @ str '': '' @ message
                      \<in> set (errors st)
                | None \<Rightarrow>
                    set (slice ?records (insertBatchSize * k) (insertBatchSize * k + insertBatchSize))
                      \<subseteq> set (embeddings_table w')"
      by (auto simp: insertBatchSize_def st split: option.splits)
  qed
  have "total_embeddings st = length (embeddings_table w') - length (embeddings_table w)"
    "total_embeddings st \<le> total_chunks st"
    using st grows by simp_all
  with res idx st(3) grows(4) batches show ?thesis
    by blast
qed

subsection \<open>The example run of indexDataset\<close>

lemma configured_default:
  "isProviderConfigured testApiKey (embeddingProvider DEFAULT_RAG_CONFIG) = Inr True"
  using configured_test by (simp add: DEFAULT_RAG_CONFIG_def)

lemma indexDataset_tiny:
  "indexDataset fdiv parse stringify fetch_failing_second insert_refusing testApiKey 0 5
     (str ''gem'') (str ''ds'') csvTiny (str ''f.csv'') (str ''csv'') DEFAULT_RAG_CONFIG emptyWorld
   = Inr (\<lparr>total_chunks = 1, total_embeddings = 0, total_tokens = 1, processing_time_ms = 5,
            cost_estimate = 1 / 100000000,
            errors = [str ''Erreur insertion batch 1: timeout'']\<rparr>,
          \<lparr>fetch_calls = 1, insert_calls = 1, embeddings_table = []\<rparr>)"
  apply (simp add: indexDataset_def DEFAULT_RAG_CONFIG_def chunkContent_tiny Let_def)
  apply (simp add: generateEmbeddings_def configured_test provider_test emptyWorld_def)
  apply (simp add: generateEmbeddings_loop.simps batchSize_def slice_def generateBatch_def
      geminiProvider_def fetch_failing_second_def gemini_request_for_def)
  apply (simp add: str_def)
  apply (simp add: indexDataset_loop.simps embeddingRecords_def enumerate_simps insertBatchSize_def
      insert_refusing_def slice_def show_nat.simps str_def emptyWorld_def)
  done

theorem indexDataset_inserted_count_witness:
  "chunkContent (/) (\<lambda>s. None) (\<lambda>j. []) csvTiny (str ''csv'') (str ''f.csv'')
      (chunkingConfig DEFAULT_RAG_CONFIG)
   = [\<lparr>content = str ''h\<newline>a'',
       metadata = \<lparr>chunk_index = 0, source_file = str ''f.csv'', file_type = str ''csv'',
                   section_label = Some (str ''Lignes 1-1''), page_number = None,
                   line_start = Some 1, line_end = Some 1, tokens = 1\<rparr>\<rparr>]
   \<and> isProviderConfigured testApiKey (embeddingProvider DEFAULT_RAG_CONFIG) = Inr True
   \<and> (\<exists>st w'. indexDataset (/) (\<lambda>s. None) (\<lambda>j. []) fetch_failing_second insert_refusing testApiKey 0 5
                   (str ''gem'') (str ''ds'') csvTiny (str ''f.csv'') (str ''csv'')
                   DEFAULT_RAG_CONFIG emptyWorld = Inr (st, w')
         \<and> total_chunks st = 1
         \<and> total_embeddings st = length (embeddings_table w') - length (embeddings_table emptyWorld)
         \<and> total_embeddings st = 0
         \<and> str ''Erreur insertion batch 1: timeout'' \<in> set (errors st))"
proof -
  have chunks: "chunkContent (/) (\<lambda>s. None) (\<lambda>j. []) csvTiny (str ''csv'') (str ''f.csv'')
      (chunkingConfig DEFAULT_RAG_CONFIG)
   = [\<lparr>content = str ''h\<newline>a'',
       metadata = \<lparr>chunk_index = 0, source_file = str ''f.csv'', file_type = str ''csv'',
                   section_label = Some (str ''Lignes 1-1''), page_number = None,
                   line_start = Some 1, line_end = Some 1, tokens = 1\<rparr>\<rparr>]"
    using chunkContent_tiny by (simp add: DEFAULT_RAG_CONFIG_def)
  from indexDataset_inserted_count [OF chunks _ configured_default,
         of fetch_failing_second 0 5 emptyWorld insert_refusing "str ''gem''" "str ''ds''"]
  obtain st w' where
    "indexDataset (/) (\<lambda>s. None) (\<lambda>j. []) fetch_failing_second insert_refusing testApiKey 0 5
                   (str ''gem'') (str ''ds'') csvTiny (str ''f.csv'') (str ''csv'')
                   DEFAULT_RAG_CONFIG emptyWorld = Inr (st, w')"
    "total_embeddings st = length (embeddings_table w') - length (embeddings_table emptyWorld)"
    by auto
  with chunks configured_default indexDataset_tiny [of "(/)" "\<lambda>s. None" "\<lambda>j. []"]
  show ?thesis by auto
qed

subsection \<open>The context that searchForAI builds\<close>

text \<open>
  Claim C7. When \<^verbatim>\<open>searchSimilar\<close> returns, so does \<^verbatim>\<open>searchForAI\<close>, with the same search
  result; the context is the blocks \<^verbatim>\<open>[Source N] <content>\<close> of the matches in their
  order, joined by a blank line; the sources are the strings
  \<^verbatim>\<open>Source N: <sourceFile>\<close>, followed by \<^verbatim>\<open> (<section>)\<close> when the match has a section,
  one per match; and with no match the context is the empty string and the list of
  sources is empty.
\<close>

theorem searchForAI_context:
  assumes "searchSimilar fetch match_embeddings key gemId queryText config calls = Inr result"
  shows "\<exists>r blocks.
           searchForAI fetch match_embeddings key t0 t1 gemId queryText config calls = Inr r
         \<and> searchResult r = result
         \<and> context_text r = js_join [10, 10] blocks
         \<and> length blocks = length (matches result)
         \<and> (\<forall>i < length (matches result).
               blocks ! i = str ''[Source '' @ show_nat (i + 1) @ str ''] ''
                            @ match_content (matches result ! i))
         \<and> length (sources r) = length (matches result)
         \<and> (\<forall>i < length (matches result).
               sources r ! i
               = str ''Source '' @ show_nat (i + 1) @ str '': '' @ sourceFile_of (matches result ! i)
                 @ (if section_of (matches result ! i) = [] then []
                    else str '' ('' @ section_of (matches result ! i) @ str '')''))
         \<and> (matches result = [] \<longrightarrow> context_text r = [] \<and> sources r = [])"
proof -
  let ?blocks = "map (\<lambda>(index, m). str ''[Source '' @ show_nat (index + 1) @ str ''] ''
                                        @ match_content m)
                        (enumerate 0 (matches result))"
  obtain r where r: "searchForAI fetch match_embeddings key t0 t1 gemId queryText config calls = Inr r"
    and sr: "searchResult r = result"
    and ctx: "context_text r = js_join [10, 10] ?blocks"
    and src: "sources r = map (\<lambda>(index, m).
                        (let sourceFile = sourceFile_of m; sec = section_of m
                         in str ''Source '' @ show_nat (index + 1) @ str '': '' @ sourceFile
                            @ (if sec \<noteq> [] then str '' ('' @ sec @ str '')'' else [])))
                     (enumerate 0 (matches result))"
    using assms by (simp add: searchForAI_def)
  have "length ?blocks = length (matches result)"
    by simp
  moreover have "\<forall>i < length (matches result).
               ?blocks ! i = str ''[Source '' @ show_nat (i + 1) @ str ''] ''
                            @ match_content (matches result ! i)"
    by (simp add: nth_enumerate_eq)
  moreover have "length (sources r) = length (matches result)"
    by (simp add: src)
  moreover have "\<forall>i < length (matches result).
               sources r ! i
               = str ''Source '' @ show_nat (i + 1) @ str '': '' @ sourceFile_of (matches result ! i)
                 @ (if section_of (matches result ! i) = [] then []
                    else str '' ('' @ section_of (matches result ! i) @ str '')'')"
    by (simp add: src nth_enumerate_eq Let_def)
  moreover have "matches result = [] \<longrightarrow> context_text r = [] \<and> sources r = []"
    by (simp add: ctx src)
  ultimately show ?thesis
    using r sr ctx by blast
qed

lemma searchSimilar_two:
  "searchSimilar fetch_failing_second match_two testApiKey (str ''gem'') (str ''question'')
     DEFAULT_RAG_CONFIG 0
   = Inr \<lparr>matches = exampleMatches, query = str ''question'', threshold = 7 / 10,
          total_matches = 2\<rparr>"
  apply (simp add: searchSimilar_def generateSingleEmbedding_def DEFAULT_RAG_CONFIG_def
      configured_test provider_test)
  apply (simp add: geminiProvider_def generateSingleGeminiEmbedding_def fetch_failing_second_def
      gemini_request_for_def match_two_def exampleMatches_def)
  apply (simp add: str_def)
  done

lemma searchSimilar_nothing:
  "searchSimilar fetch_failing_second match_nothing testApiKey (str ''gem'') (str ''question'')
     DEFAULT_RAG_CONFIG 0
   = Inr \<lparr>matches = [], query = str ''question'', threshold = 7 / 10, total_matches = 0\<rparr>"
  apply (simp add: searchSimilar_def generateSingleEmbedding_def DEFAULT_RAG_CONFIG_def
      configured_test provider_test)
  apply (simp add: geminiProvider_def generateSingleGeminiEmbedding_def fetch_failing_second_def
      gemini_request_for_def match_nothing_def)
  apply (simp add: str_def)
  done

lemma searchForAI_two:
  "searchForAI fetch_failing_second match_two testApiKey 0 3 (str ''gem'') (str ''question'')
     DEFAULT_RAG_CONFIG 0
   = Inr \<lparr>context_text = str ''[Source 1] alpha\<newline>\<newline>[Source 2] beta'',
          sources = [str ''Source 1: a.csv (Lignes 1-5)'', str ''Source 2: Fichier inconnu''],
          searchResult = \<lparr>matches = exampleMatches, query = str ''question'', threshold = 7 / 10,
                          total_matches = 2\<rparr>,
          searchStats = \<lparr>query_time_ms = 3, total_embeddings_searched = 2, matches_found = 2,
                         similarity_scores = [9 / 10, 8 / 10]\<rparr>\<rparr>"
  apply (simp add: searchForAI_def searchSimilar_two)
  apply (simp add: exampleMatches_def enumerate_simps sourceFile_of_def section_of_def
      show_nat.simps str_def)
  done

theorem searchForAI_context_witness:
  "searchSimilar fetch_failing_second match_two testApiKey (str ''gem'') (str ''question'')
     DEFAULT_RAG_CONFIG 0
   = Inr \<lparr>matches = exampleMatches, query = str ''question'', threshold = 7 / 10,
          total_matches = 2\<rparr>
   \<and> (\<exists>r. searchForAI fetch_failing_second match_two testApiKey 0 3 (str ''gem'') (str ''question'')
             DEFAULT_RAG_CONFIG 0 = Inr r
          \<and> context_text r = str ''[Source 1] alpha\<newline>\<newline>[Source 2] beta''
          \<and> sources r = [str ''Source 1: a.csv (Lignes 1-5)'', str ''Source 2: Fichier inconnu''])
   \<and> searchSimilar fetch_failing_second match_nothing testApiKey (str ''gem'') (str ''question'')
     DEFAULT_RAG_CONFIG 0
   = Inr \<lparr>matches = [], query = str ''question'', threshold = 7 / 10, total_matches = 0\<rparr>
   \<and> (\<exists>r. searchForAI fetch_failing_second match_nothing testApiKey 0 3 (str ''gem'')
             (str ''question'') DEFAULT_RAG_CONFIG 0 = Inr r
          \<and> context_text r = [] \<and> sources r = [] \<and> total_matches (searchResult r) = 0)"
proof -
  from searchForAI_context [OF searchSimilar_two, of 0 3] obtain r where
    r: "searchForAI fetch_failing_second match_two testApiKey 0 3 (str ''gem'') (str ''question'')
             DEFAULT_RAG_CONFIG 0 = Inr r"
    by blast
  with searchForAI_two have
    "context_text r = str ''[Source 1] alpha\<newline>\<newline>[Source 2] beta''"
    "sources r = [str ''Source 1: a.csv (Lignes 1-5)'', str ''Source 2: Fichier inconnu'']"
    by auto
  moreover
  from searchForAI_context [OF searchSimilar_nothing, of 0 3] obtain r0 where
    "searchForAI fetch_failing_second match_nothing testApiKey 0 3 (str ''gem'')
             (str ''question'') DEFAULT_RAG_CONFIG 0 = Inr r0"
    "context_text r0 = []" "sources r0 = []" "total_matches (searchResult r0) = 0"
    by auto
  ultimately show ?thesis
    using r searchSimilar_two searchSimilar_nothing by blast
qed

end
